theory Spec2Isabelle
  imports Complex_Main "HOL-Library.Sublist"
begin

section \<open>Python values and the operations the analyzers apply to them\<close>

text \<open>
  The analyzers receive the metrics snapshot as an untyped Python \<^verbatim>\<open>Dict\<close> and read it
  with \<^verbatim>\<open>.get\<close>, comparisons, truth tests, \<^verbatim>\<open>len\<close> and \<^verbatim>\<open>for\<close>. The snapshot
  is therefore a value of \<open>pyval\<close>; every operation that Python can refuse at run time
  returns \<open>error + 'a\<close>. A float is represented by the rational it denotes (infinities and
  NaN are outside the model); a dictionary is the list of its items in insertion order, keyed
  by strings. A Python dictionary holds a key once; should a list repeat a key, a lookup
  takes its first binding.
\<close>

datatype pyval =
    PNone
  | PBool bool
  | PInt int
  | PFloat rat
  | PStr string
  | PList "pyval list"
  | PDict "(string \<times> pyval) list"

datatype error = AttributeError | TypeError | KeyError | ValueError

definition bindE :: "error + 'a \<Rightarrow> ('a \<Rightarrow> error + 'b) \<Rightarrow> error + 'b" where
  "bindE m f = (case m of Inl e \<Rightarrow> Inl e | Inr v \<Rightarrow> f v)"

text \<open>\<^verbatim>\<open>d.get(key, default)\<close>: only a dictionary has the method.\<close>

fun py_get :: "pyval \<Rightarrow> string \<Rightarrow> pyval \<Rightarrow> error + pyval" where
  "py_get (PDict kvs) k d = Inr (case map_of kvs k of None \<Rightarrow> d | Some v \<Rightarrow> v)"
| "py_get _ k d = Inl AttributeError"

text \<open>The number a value stands for in a comparison: int, float and bool are numbers.\<close>

fun num_of :: "pyval \<Rightarrow> rat option" where
  "num_of (PInt i) = Some (of_int i)"
| "num_of (PFloat r) = Some r"
| "num_of (PBool b) = Some (if b then 1 else 0)"
| "num_of _ = None"

text \<open>
  \<^verbatim>\<open>a == b\<close>: numbers are equal by value (\<^verbatim>\<open>1 == 1.0 == True\<close>), strings and
  \<^verbatim>\<open>None\<close> to themselves, lists element by element, dictionaries when they have the same
  keys with equal values; values of different kinds are unequal.
\<close>

fun py_eq :: "pyval \<Rightarrow> pyval \<Rightarrow> bool"
  and py_eq_list :: "pyval list \<Rightarrow> pyval list \<Rightarrow> bool"
  and py_eq_items :: "(string \<times> pyval) list \<Rightarrow> (string \<times> pyval) list \<Rightarrow> bool" where
  "py_eq PNone PNone = True"
| "py_eq (PStr s) (PStr t) = (s = t)"
| "py_eq (PList xs) (PList ys) = py_eq_list xs ys"
| "py_eq (PDict a) (PDict b) = (length a = length b \<and> py_eq_items a b)"
| "py_eq a b = (case (num_of a, num_of b) of (Some x, Some y) \<Rightarrow> x = y | _ \<Rightarrow> False)"
| "py_eq_list [] [] = True"
| "py_eq_list (x # xs) (y # ys) = (py_eq x y \<and> py_eq_list xs ys)"
| "py_eq_list _ _ = False"
| "py_eq_items [] b = True"
| "py_eq_items ((k, v) # rest) b =
     ((case map_of b k of None \<Rightarrow> False | Some w \<Rightarrow> py_eq v w) \<and> py_eq_items rest b)"

text \<open>The order of strings: character by character, a proper prefix first.\<close>

fun str_le :: "string \<Rightarrow> string \<Rightarrow> bool" where
  "str_le [] t = True"
| "str_le (c # cs) [] = False"
| "str_le (c # cs) (d # ds) = ((of_char c :: nat) < of_char d \<or> (c = d \<and> str_le cs ds))"

text \<open>
  \<^verbatim>\<open>a >= b\<close> between two values, as the usage evaluators compare a usage with a
  threshold: numbers by value, strings by their order, lists by their first unequal
  elements (or by length when one is a prefix of the other); \<^verbatim>\<open>TypeError\<close> for
  \<^verbatim>\<open>None\<close>, for dictionaries and for values of different kinds.
\<close>

fun py_ge :: "pyval \<Rightarrow> pyval \<Rightarrow> error + bool"
  and py_ge_list :: "pyval list \<Rightarrow> pyval list \<Rightarrow> error + bool" where
  "py_ge (PStr s) (PStr t) = Inr (str_le t s)"
| "py_ge (PList xs) (PList ys) = py_ge_list xs ys"
| "py_ge a b =
     (case (num_of a, num_of b) of (Some x, Some y) \<Rightarrow> Inr (x \<ge> y) | _ \<Rightarrow> Inl TypeError)"
| "py_ge_list xs [] = Inr True"
| "py_ge_list [] (y # ys) = Inr False"
| "py_ge_list (x # xs) (y # ys) = (if py_eq x y then py_ge_list xs ys else py_ge x y)"

text \<open>\<^verbatim>\<open>v > t\<close> against a numeric literal \<open>t\<close> of the source: a \<^verbatim>\<open>TypeError\<close> unless
  \<open>v\<close> is a number.\<close>

definition py_gt :: "pyval \<Rightarrow> rat \<Rightarrow> error + bool" where
  "py_gt v t = (case num_of v of None \<Rightarrow> Inl TypeError | Some x \<Rightarrow> Inr (x > t))"

text \<open>Truth value of an object in \<^verbatim>\<open>if v\<close> and \<^verbatim>\<open>not v\<close>.\<close>

fun truthy :: "pyval \<Rightarrow> bool" where
  "truthy PNone = False"
| "truthy (PBool b) = b"
| "truthy (PInt i) = (i \<noteq> 0)"
| "truthy (PFloat r) = (r \<noteq> 0)"
| "truthy (PStr s) = (s \<noteq> [])"
| "truthy (PList xs) = (xs \<noteq> [])"
| "truthy (PDict kvs) = (kvs \<noteq> [])"

text \<open>\<^verbatim>\<open>len(v)\<close>: defined on strings, lists and dictionaries.\<close>

fun py_len :: "pyval \<Rightarrow> error + nat" where
  "py_len (PStr s) = Inr (length s)"
| "py_len (PList xs) = Inr (length xs)"
| "py_len (PDict kvs) = Inr (length kvs)"
| "py_len _ = Inl TypeError"

text \<open>\<^verbatim>\<open>for x in v\<close>: the elements of a list, the characters of a string, the keys of a
  dictionary.\<close>

fun py_iter :: "pyval \<Rightarrow> error + pyval list" where
  "py_iter (PList xs) = Inr xs"
| "py_iter (PStr s) = Inr (map (\<lambda>c. PStr [c]) s)"
| "py_iter (PDict kvs) = Inr (map (\<lambda>kv. PStr (fst kv)) kvs)"
| "py_iter _ = Inl TypeError"

section \<open>Results\<close>

text \<open>
  The five status strings the analyzers write: \<^verbatim>\<open>'normal'\<close>, \<^verbatim>\<open>'warning'\<close>,
  \<^verbatim>\<open>'critical'\<close> for a category, and \<^verbatim>\<open>'healthy'\<close> or \<^verbatim>\<open>'secure'\<close> as the initial
  status of an aggregate.
\<close>

datatype status = Normal | Warning | Critical | Healthy | Secure

text \<open>
  An issue is an f-string. Its literal parts are kept as they are and every interpolated
  value is kept as the value, so that the text does not depend on how Python prints a float.
\<close>

datatype piece = Lit string | Val pyval

type_synonym message = "piece list"

text \<open>
  Every result dictionary has the keys \<^verbatim>\<open>'status'\<close> and \<^verbatim>\<open>'issues'\<close>. A category result
  has further keys of its own (\<open>details\<close>, in the order of the dictionary literal); the
  aggregate has \<^verbatim>\<open>'score'\<close>.
\<close>

record result =
  status :: status
  issues :: "message list"

record category_result = result +
  details :: "(string \<times> pyval) list"

record health_result = result +
  score :: int

datatype entry = Category category_result | Health health_result

type_synonym analysis_result = "(string \<times> entry) list"

text \<open>
  A row \<^verbatim>\<open>{'warning': ..., 'critical': ...}\<close> of the threshold table. The defaults are
  floats, and \<^verbatim>\<open>_load_thresholds\<close> copies whatever the configuration holds over them, so
  an entry is an arbitrary value.
\<close>

record threshold =
  warning :: pyval
  critical :: pyval

text \<open>\<^verbatim>\<open>self.thresholds\<close>: the table built by \<^verbatim>\<open>_load_thresholds\<close>, by category name.
  Each analyzer looks up the three names of its own table only.\<close>

type_synonym thresholds = "string \<Rightarrow> threshold"

section \<open>Health aggregation\<close>

text \<open>
  The loop of \<^verbatim>\<open>_calculate_health\<close> (performance.py, resources.py) and of
  \<^verbatim>\<open>_calculate_security_score\<close> (security.py) over \<^verbatim>\<open>results.items()\<close>. The three copies
  differ only in the key they skip, which is the first argument here.
\<close>

fun health_loop :: "string \<Rightarrow> (string \<times> category_result) list \<Rightarrow> health_result \<Rightarrow> health_result" where
  "health_loop skip [] health = health"
| "health_loop skip ((component, res) # rest) health =
     (if component = skip then health_loop skip rest health
      else if status res = Critical then
        health_loop skip rest (health\<lparr>issues := issues health @ issues res, score := score health - 25\<rparr>)
      else if status res = Warning then
        health_loop skip rest (health\<lparr>issues := issues health @ issues res, score := score health - 10\<rparr>)
      else health_loop skip rest health)"

text \<open>The final update of the overall status, the same in the three copies.\<close>

definition update_overall_status :: "health_result \<Rightarrow> health_result" where
  "update_overall_status health =
     (if score health \<le> 50 then health\<lparr>status := Critical\<rparr>
      else if score health \<le> 75 then health\<lparr>status := Warning\<rparr>
      else health)"

definition PerformanceAnalyzer_calculate_health :: "(string \<times> category_result) list \<Rightarrow> health_result" where
  "PerformanceAnalyzer_calculate_health results =
     update_overall_status
       (health_loop ''health'' results \<lparr>status = Healthy, issues = [], score = 100\<rparr>)"

definition ResourceAnalyzer_calculate_health :: "(string \<times> category_result) list \<Rightarrow> health_result" where
  "ResourceAnalyzer_calculate_health results =
     update_overall_status
       (health_loop ''health'' results \<lparr>status = Healthy, issues = [], score = 100\<rparr>)"

definition SecurityAnalyzer_calculate_security_score :: "(string \<times> category_result) list \<Rightarrow> health_result" where
  "SecurityAnalyzer_calculate_security_score results =
     update_overall_status
       (health_loop ''security_score'' results \<lparr>status = Secure, issues = [], score = 100\<rparr>)"

section \<open>Loops\<close>

text \<open>A \<^verbatim>\<open>for\<close> loop whose body may raise: the body is run on each element in turn, on
  the state left by the element before, and the first error ends the loop.\<close>

fun for_each :: "('a \<Rightarrow> 's \<Rightarrow> error + 's) \<Rightarrow> 'a list \<Rightarrow> 's \<Rightarrow> error + 's" where
  "for_each body [] s = Inr s"
| "for_each body (x # xs) s =
     (case body x s of Inl e \<Rightarrow> Inl e | Inr s' \<Rightarrow> for_each body xs s')"

section \<open>Usage-percentage evaluators\<close>

text \<open>
  The threshold check that \<^verbatim>\<open>_analyze_cpu\<close>, \<^verbatim>\<open>_analyze_memory\<close>, \<^verbatim>\<open>_analyze_disk\<close>
  (performance.py) and \<^verbatim>\<open>_analyze_disk\<close>, \<^verbatim>\<open>_analyze_memory\<close>, \<^verbatim>\<open>_analyze_swap\<close>
  (resources.py) each spell out: the \<^verbatim>\<open>if usage >= critical ... elif usage >= warning\<close>
  block, with the category's label in the message. It returns the status and the issues.
\<close>

definition check_usage :: "string \<Rightarrow> pyval \<Rightarrow> threshold \<Rightarrow> error + (status \<times> message list)" where
  "check_usage label usage t =
     bindE (py_ge usage (critical t)) (\<lambda>is_critical.
       if is_critical then
         Inr (Critical, [[Lit (label @ '' usage is critically high: ''), Val usage, Lit ''%'']])
       else
         bindE (py_ge usage (warning t)) (\<lambda>is_warning.
           if is_warning then
             Inr (Warning, [[Lit (label @ '' usage is high: ''), Val usage, Lit ''%'']])
           else Inr (Normal, [])))"

definition PerformanceAnalyzer_analyze_cpu :: "thresholds \<Rightarrow> pyval \<Rightarrow> error + category_result" where
  "PerformanceAnalyzer_analyze_cpu th cpu_metrics =
     bindE (py_get cpu_metrics ''usage'' (PFloat 0)) (\<lambda>usage.
     bindE (check_usage ''CPU'' usage (th ''cpu'')) (\<lambda>(st, iss).
       Inr \<lparr>status = st, issues = iss, details = [(''usage'', usage)]\<rparr>))"

definition PerformanceAnalyzer_analyze_memory :: "thresholds \<Rightarrow> pyval \<Rightarrow> error + category_result" where
  "PerformanceAnalyzer_analyze_memory th memory_metrics =
     bindE (py_get memory_metrics ''usage'' (PFloat 0)) (\<lambda>usage.
     bindE (py_get memory_metrics ''available'' (PInt 0)) (\<lambda>available.
     bindE (py_get memory_metrics ''total'' (PInt 0)) (\<lambda>total.
     bindE (check_usage ''Memory'' usage (th ''memory'')) (\<lambda>(st, iss).
       Inr \<lparr>status = st, issues = iss,
            details = [(''usage'', usage), (''available'', available), (''total'', total)]\<rparr>))))"

definition PerformanceAnalyzer_analyze_disk :: "thresholds \<Rightarrow> pyval \<Rightarrow> error + category_result" where
  "PerformanceAnalyzer_analyze_disk th disk_metrics =
     bindE (py_get disk_metrics ''usage'' (PFloat 0)) (\<lambda>usage.
     bindE (py_get disk_metrics ''free'' (PInt 0)) (\<lambda>free.
     bindE (py_get disk_metrics ''total'' (PInt 0)) (\<lambda>total.
     bindE (check_usage ''Disk'' usage (th ''disk'')) (\<lambda>(st, iss).
       Inr \<lparr>status = st, issues = iss,
            details = [(''usage'', usage), (''free'', free), (''total'', total)]\<rparr>))))"

definition ResourceAnalyzer_analyze_disk :: "thresholds \<Rightarrow> pyval \<Rightarrow> error + category_result" where
  "ResourceAnalyzer_analyze_disk th disk_metrics =
     bindE (py_get disk_metrics ''usage'' (PFloat 0)) (\<lambda>usage.
     bindE (py_get disk_metrics ''free'' (PInt 0)) (\<lambda>free.
     bindE (py_get disk_metrics ''total'' (PInt 0)) (\<lambda>total.
     bindE (check_usage ''Disk'' usage (th ''disk'')) (\<lambda>(st, iss).
       Inr \<lparr>status = st, issues = iss,
            details = [(''usage'', usage), (''free'', free), (''total'', total)]\<rparr>))))"

definition ResourceAnalyzer_analyze_memory :: "thresholds \<Rightarrow> pyval \<Rightarrow> error + category_result" where
  "ResourceAnalyzer_analyze_memory th memory_metrics =
     bindE (py_get memory_metrics ''usage'' (PFloat 0)) (\<lambda>usage.
     bindE (py_get memory_metrics ''available'' (PInt 0)) (\<lambda>available.
     bindE (py_get memory_metrics ''total'' (PInt 0)) (\<lambda>total.
     bindE (check_usage ''Memory'' usage (th ''memory'')) (\<lambda>(st, iss).
       Inr \<lparr>status = st, issues = iss,
            details = [(''usage'', usage), (''available'', available), (''total'', total)]\<rparr>))))"

definition ResourceAnalyzer_analyze_swap :: "thresholds \<Rightarrow> pyval \<Rightarrow> error + category_result" where
  "ResourceAnalyzer_analyze_swap th swap_metrics =
     bindE (py_get swap_metrics ''usage'' (PFloat 0)) (\<lambda>usage.
     bindE (py_get swap_metrics ''free'' (PInt 0)) (\<lambda>free.
     bindE (py_get swap_metrics ''total'' (PInt 0)) (\<lambda>total.
     bindE (check_usage ''Swap'' usage (th ''swap'')) (\<lambda>(st, iss).
       Inr \<lparr>status = st, issues = iss,
            details = [(''usage'', usage), (''free'', free), (''total'', total)]\<rparr>))))"

section \<open>Network, process and file-system evaluators\<close>

definition PerformanceAnalyzer_analyze_network :: "pyval \<Rightarrow> error + category_result" where
  "PerformanceAnalyzer_analyze_network network_metrics =
     bindE (py_get network_metrics ''bytes_sent'' (PInt 0)) (\<lambda>bytes_sent.
     bindE (py_get network_metrics ''bytes_recv'' (PInt 0)) (\<lambda>bytes_recv.
     bindE (py_get network_metrics ''packets_sent'' (PInt 0)) (\<lambda>packets_sent.
     bindE (py_get network_metrics ''packets_recv'' (PInt 0)) (\<lambda>packets_recv.
       Inr \<lparr>status = Normal, issues = [],
            details = [(''bytes_sent'', bytes_sent), (''bytes_recv'', bytes_recv),
                       (''packets_sent'', packets_sent), (''packets_recv'', packets_recv)]\<rparr>))))"

text \<open>The entry appended to \<^verbatim>\<open>high_cpu\<close> or \<^verbatim>\<open>high_memory\<close>: pid, name and the
  percentage, each read with \<^verbatim>\<open>process.get(key)\<close>, whose default is \<^verbatim>\<open>None\<close>.\<close>

definition process_entry :: "pyval \<Rightarrow> string \<Rightarrow> error + pyval" where
  "process_entry process percent_key =
     bindE (py_get process ''pid'' PNone) (\<lambda>pid.
     bindE (py_get process ''name'' PNone) (\<lambda>name.
     bindE (py_get process percent_key PNone) (\<lambda>percent.
       Inr (PDict [(''pid'', pid), (''name'', name), (percent_key, percent)]))))"

text \<open>The part of the loop body that both process evaluators share: the CPU test (more
  than 50) and the memory test (more than 5) on one process.\<close>

definition check_process :: "pyval \<Rightarrow> pyval list \<times> pyval list \<Rightarrow> error + (pyval list \<times> pyval list)" where
  "check_process process acc =
     (case acc of (high_cpu, high_memory) \<Rightarrow>
       bindE (py_get process ''cpu_percent'' (PInt 0)) (\<lambda>cpu_percent.
       bindE (py_gt cpu_percent 50) (\<lambda>is_high_cpu.
       bindE (if is_high_cpu
              then bindE (process_entry process ''cpu_percent'') (\<lambda>e. Inr (high_cpu @ [e]))
              else Inr high_cpu) (\<lambda>high_cpu'.
       bindE (py_get process ''memory_percent'' (PInt 0)) (\<lambda>memory_percent.
       bindE (py_gt memory_percent 5) (\<lambda>is_high_memory.
       bindE (if is_high_memory
              then bindE (process_entry process ''memory_percent'') (\<lambda>e. Inr (high_memory @ [e]))
              else Inr high_memory) (\<lambda>high_memory'.
         Inr (high_cpu', high_memory'))))))))"

text \<open>The two status updates after the loop, which both process evaluators end with.\<close>

definition process_count_issues :: "pyval list \<Rightarrow> pyval list \<Rightarrow> message list" where
  "process_count_issues high_cpu high_memory =
     (if length high_cpu > 5
      then [[Lit ''High number of CPU-intensive processes: '', Val (PInt (int (length high_cpu)))]]
      else []) @
     (if length high_memory > 5
      then [[Lit ''High number of memory-intensive processes: '', Val (PInt (int (length high_memory)))]]
      else [])"

definition PerformanceAnalyzer_analyze_processes :: "pyval \<Rightarrow> error + category_result" where
  "PerformanceAnalyzer_analyze_processes processes =
     bindE (py_len processes) (\<lambda>total.
     bindE (py_iter processes) (\<lambda>ps.
     bindE (for_each check_process ps ([], [])) (\<lambda>(high_cpu, high_memory).
       Inr \<lparr>status = (if length high_cpu > 5 \<or> length high_memory > 5 then Warning else Normal),
            issues = process_count_issues high_cpu high_memory,
            details = [(''total'', PInt (int total)), (''high_cpu'', PList high_cpu),
                       (''high_memory'', PList high_memory)]\<rparr>)))"

text \<open>The loop body of the resource domain adds the zombie test:
  \<^verbatim>\<open>process.get('status') == 'zombie'\<close>.\<close>

definition check_resource_process ::
  "pyval \<Rightarrow> (pyval list \<times> pyval list) \<times> pyval list \<Rightarrow> error + ((pyval list \<times> pyval list) \<times> pyval list)" where
  "check_resource_process process acc =
     (case acc of (high, zombie) \<Rightarrow>
       bindE (check_process process high) (\<lambda>high'.
       bindE (py_get process ''status'' PNone) (\<lambda>st.
       bindE (if st = PStr ''zombie''
              then bindE (py_get process ''pid'' PNone) (\<lambda>pid.
                   bindE (py_get process ''name'' PNone) (\<lambda>name.
                     Inr (zombie @ [PDict [(''pid'', pid), (''name'', name)]])))
              else Inr zombie) (\<lambda>zombie'.
         Inr (high', zombie')))))"

definition ResourceAnalyzer_analyze_processes :: "pyval \<Rightarrow> error + category_result" where
  "ResourceAnalyzer_analyze_processes processes =
     bindE (py_len processes) (\<lambda>total.
     bindE (py_iter processes) (\<lambda>ps.
     bindE (for_each check_resource_process ps (([], []), [])) (\<lambda>((high_cpu, high_memory), zombie).
       Inr \<lparr>status = (if zombie \<noteq> [] \<or> length high_cpu > 5 \<or> length high_memory > 5
                      then Warning else Normal),
            issues = (if zombie \<noteq> []
                      then [[Lit ''Found '', Val (PInt (int (length zombie))), Lit '' zombie processes'']]
                      else []) @ process_count_issues high_cpu high_memory,
            details = [(''total'', PInt (int total)), (''high_cpu'', PList high_cpu),
                       (''high_memory'', PList high_memory), (''zombie'', PList zombie)]\<rparr>)))"

text \<open>The list comprehension of \<^verbatim>\<open>_analyze_file_system\<close>: the files whose
  \<^verbatim>\<open>f.get('size', 0)\<close> is more than 1 GiB.\<close>

definition check_large_file :: "pyval \<Rightarrow> pyval list \<Rightarrow> error + pyval list" where
  "check_large_file f large_files =
     bindE (py_get f ''size'' (PInt 0)) (\<lambda>size.
     bindE (py_gt size (1024 * 1024 * 1024)) (\<lambda>is_large.
       Inr (if is_large then large_files @ [f] else large_files)))"

definition ResourceAnalyzer_analyze_file_system :: "pyval \<Rightarrow> error + category_result" where
  "ResourceAnalyzer_analyze_file_system fs_metrics =
     bindE (py_get fs_metrics ''total_files'' (PInt 0)) (\<lambda>total_files.
     bindE (py_get fs_metrics ''total_dirs'' (PInt 0)) (\<lambda>total_dirs.
     bindE (py_get fs_metrics ''largest_files'' (PList [])) (\<lambda>largest_files.
     bindE (py_iter largest_files) (\<lambda>fs.
     bindE (for_each check_large_file fs []) (\<lambda>large_files.
       Inr \<lparr>status = (if large_files \<noteq> [] then Warning else Normal),
            issues = (if large_files \<noteq> []
                      then [[Lit ''Found '', Val (PInt (int (length large_files))),
                             Lit '' files larger than 1GB'']]
                      else []),
            details = [(''total_files'', total_files), (''total_dirs'', total_dirs),
                       (''largest_files'', largest_files)]\<rparr>)))))"

section \<open>Security evaluators\<close>

text \<open>The dictionary \<^verbatim>\<open>vulnerable_ports\<close> of \<^verbatim>\<open>_analyze_ports\<close>.\<close>

definition vulnerable_ports :: "(int \<times> string) list" where
  "vulnerable_ports = [(21, ''FTP''), (22, ''SSH''), (23, ''Telnet''), (25, ''SMTP''), (3389, ''RDP'')]"

text \<open>
  \<^verbatim>\<open>port_num in vulnerable_ports\<close> hashes \<open>port_num\<close> and compares it with the integer keys.
  A list or a dictionary cannot be hashed; a number is equal to the integer of the same
  value (\<^verbatim>\<open>22.0 == 22\<close>, \<^verbatim>\<open>True == 1\<close>); nothing else is equal to an integer. The result
  is the integer that \<open>port_num\<close> is equal to, if there is one.
\<close>

fun int_key :: "pyval \<Rightarrow> error + int option" where
  "int_key (PInt i) = Inr (Some i)"
| "int_key (PFloat r) = Inr (if r = of_int \<lfloor>r\<rfloor> then Some \<lfloor>r\<rfloor> else None)"
| "int_key (PBool b) = Inr (Some (if b then 1 else 0))"
| "int_key PNone = Inr None"
| "int_key (PStr s) = Inr None"
| "int_key (PList xs) = Inl TypeError"
| "int_key (PDict kvs) = Inl TypeError"

text \<open>The name \<^verbatim>\<open>vulnerable_ports[port_num]\<close> when \<^verbatim>\<open>port_num in vulnerable_ports\<close>.\<close>

definition vulnerable_service_of :: "int option \<Rightarrow> string option" where
  "vulnerable_service_of key = (case key of None \<Rightarrow> None | Some i \<Rightarrow> map_of vulnerable_ports i)"

definition check_port :: "pyval \<Rightarrow> pyval list \<Rightarrow> error + pyval list" where
  "check_port port open_ports =
     bindE (py_get port ''port'' PNone) (\<lambda>port_num.
     bindE (int_key port_num) (\<lambda>key.
       case vulnerable_service_of key of
         None \<Rightarrow> Inr open_ports
       | Some service \<Rightarrow>
           bindE (py_get port ''state'' (PStr ''unknown'')) (\<lambda>state.
             Inr (open_ports @ [PDict [(''port'', port_num), (''service'', PStr service),
                                        (''state'', state)]]))))"

definition SecurityAnalyzer_analyze_ports :: "pyval \<Rightarrow> error + category_result" where
  "SecurityAnalyzer_analyze_ports ports =
     bindE (py_len ports) (\<lambda>total.
     bindE (py_iter ports) (\<lambda>ps.
     bindE (for_each check_port ps []) (\<lambda>open_ports.
       Inr \<lparr>status = (if open_ports \<noteq> [] then Warning else Normal),
            issues = (if open_ports \<noteq> []
                      then [[Lit ''Found '', Val (PInt (int (length open_ports))),
                             Lit '' potentially vulnerable ports open'']]
                      else []),
            details = [(''total'', PInt (int total)), (''open'', PList open_ports)]\<rparr>)))"

text \<open>The list \<^verbatim>\<open>vulnerable_services\<close> of \<^verbatim>\<open>_analyze_services\<close>.\<close>

definition vulnerable_services :: "string list" where
  "vulnerable_services = [''telnet'', ''ftp'', ''rsh'', ''rlogin'', ''rexec'']"

text \<open>\<^verbatim>\<open>str.lower()\<close> on the ASCII letters; only a string has the method.\<close>

definition lower_char :: "char \<Rightarrow> char" where
  "lower_char c =
     (let n = (of_char c :: nat) in if 65 \<le> n \<and> n \<le> 90 then char_of (n + 32) else c)"

fun py_lower :: "pyval \<Rightarrow> error + string" where
  "py_lower (PStr s) = Inr (map lower_char s)"
| "py_lower _ = Inl AttributeError"

definition check_service :: "pyval \<Rightarrow> pyval list \<Rightarrow> error + pyval list" where
  "check_service service vulnerable =
     bindE (py_get service ''name'' (PStr [])) (\<lambda>raw_name.
     bindE (py_lower raw_name) (\<lambda>name.
       if name \<in> set vulnerable_services then
         bindE (py_get service ''status'' (PStr ''unknown'')) (\<lambda>st.
           Inr (vulnerable @ [PDict [(''name'', PStr name), (''status'', st)]]))
       else Inr vulnerable))"

definition SecurityAnalyzer_analyze_services :: "pyval \<Rightarrow> error + category_result" where
  "SecurityAnalyzer_analyze_services services =
     bindE (py_len services) (\<lambda>total.
     bindE (py_iter services) (\<lambda>ss.
     bindE (for_each check_service ss []) (\<lambda>vulnerable.
       Inr \<lparr>status = (if vulnerable \<noteq> [] then Warning else Normal),
            issues = (if vulnerable \<noteq> []
                      then [[Lit ''Found '', Val (PInt (int (length vulnerable))),
                             Lit '' potentially vulnerable services running'']]
                      else []),
            details = [(''total'', PInt (int total)), (''vulnerable'', PList vulnerable)]\<rparr>)))"

definition SecurityAnalyzer_analyze_updates :: "pyval \<Rightarrow> error + category_result" where
  "SecurityAnalyzer_analyze_updates updates =
     bindE (py_get updates ''last_update'' (PStr ''unknown'')) (\<lambda>last_update.
     bindE (py_get updates ''updates_available'' (PInt 0)) (\<lambda>updates_available.
     bindE (py_gt updates_available 0) (\<lambda>pending.
       Inr \<lparr>status = (if pending then Warning else Normal),
            issues = (if pending
                      then [[Lit ''System has '', Val updates_available, Lit '' updates available'']]
                      else []),
            details = [(''last_update'', last_update), (''updates_available'', updates_available)]\<rparr>)))"

definition SecurityAnalyzer_analyze_firewall :: "pyval \<Rightarrow> error + category_result" where
  "SecurityAnalyzer_analyze_firewall firewall =
     bindE (py_get firewall ''enabled'' (PBool False)) (\<lambda>enabled.
     bindE (py_get firewall ''rules'' (PList [])) (\<lambda>rules.
       Inr \<lparr>status = (if \<not> truthy enabled then Critical else Normal),
            issues = (if \<not> truthy enabled then [[Lit ''Firewall is not enabled'']] else []),
            details = [(''enabled'', enabled), (''rules'', rules)]\<rparr>))"

definition SecurityAnalyzer_analyze_antivirus :: "pyval \<Rightarrow> error + category_result" where
  "SecurityAnalyzer_analyze_antivirus antivirus =
     bindE (py_get antivirus ''enabled'' (PBool False)) (\<lambda>enabled.
     bindE (py_get antivirus ''last_scan'' (PStr ''unknown'')) (\<lambda>last_scan.
       Inr \<lparr>status = (if \<not> truthy enabled then Critical else Normal),
            issues = (if \<not> truthy enabled then [[Lit ''Antivirus is not enabled'']] else []),
            details = [(''enabled'', enabled), (''last_scan'', last_scan)]\<rparr>))"

text \<open>The loop body of \<^verbatim>\<open>_analyze_ssl\<close>: a certificate goes to \<^verbatim>\<open>expired\<close>, or else
  to \<^verbatim>\<open>expiring_soon\<close>, or to neither.\<close>

definition check_cert :: "pyval \<Rightarrow> pyval list \<times> pyval list \<Rightarrow> error + (pyval list \<times> pyval list)" where
  "check_cert cert acc =
     (case acc of (expired, expiring_soon) \<Rightarrow>
       bindE (py_get cert ''expired'' (PBool False)) (\<lambda>is_expired.
         if truthy is_expired then Inr (expired @ [cert], expiring_soon)
         else
           bindE (py_get cert ''expiring_soon'' (PBool False)) (\<lambda>is_expiring.
             if truthy is_expiring then Inr (expired, expiring_soon @ [cert])
             else Inr (expired, expiring_soon))))"

definition SecurityAnalyzer_analyze_ssl :: "pyval \<Rightarrow> error + category_result" where
  "SecurityAnalyzer_analyze_ssl ssl_certs =
     bindE (py_len ssl_certs) (\<lambda>total.
     bindE (py_iter ssl_certs) (\<lambda>certs.
     bindE (for_each check_cert certs ([], [])) (\<lambda>(expired, expiring_soon).
       Inr \<lparr>status = (if expired \<noteq> [] then Critical
                      else if expiring_soon \<noteq> [] then Warning else Normal),
            issues = (if expired \<noteq> [] then
                        [[Lit ''Found '', Val (PInt (int (length expired))),
                          Lit '' expired SSL certificates'']]
                      else if expiring_soon \<noteq> [] then
                        [[Lit ''Found '', Val (PInt (int (length expiring_soon))),
                          Lit '' SSL certificates expiring soon'']]
                      else []),
            details = [(''total'', PInt (int total)), (''expired'', PList expired),
                       (''expiring_soon'', PList expiring_soon)]\<rparr>)))"

section \<open>Domain analyzers\<close>

text \<open>\<^verbatim>\<open>results[key] = health\<close> on the dictionary of category results: the new key goes
  after the categories, none of which has that name.\<close>

definition store_health :: "(string \<times> category_result) list \<Rightarrow> string \<Rightarrow> health_result \<Rightarrow> analysis_result" where
  "store_health results key health =
     map (\<lambda>kv. (fst kv, Category (snd kv))) results @ [(key, Health health)]"

definition PerformanceAnalyzer_analyze :: "thresholds \<Rightarrow> pyval \<Rightarrow> error + analysis_result" where
  "PerformanceAnalyzer_analyze th metrics =
     bindE (py_get metrics ''cpu'' (PDict [])) (\<lambda>cpu_metrics.
     bindE (PerformanceAnalyzer_analyze_cpu th cpu_metrics) (\<lambda>cpu.
     bindE (py_get metrics ''memory'' (PDict [])) (\<lambda>memory_metrics.
     bindE (PerformanceAnalyzer_analyze_memory th memory_metrics) (\<lambda>memory.
     bindE (py_get metrics ''disk'' (PDict [])) (\<lambda>disk_metrics.
     bindE (PerformanceAnalyzer_analyze_disk th disk_metrics) (\<lambda>disk.
     bindE (py_get metrics ''network'' (PDict [])) (\<lambda>network_metrics.
     bindE (PerformanceAnalyzer_analyze_network network_metrics) (\<lambda>network.
     bindE (py_get metrics ''processes'' (PList [])) (\<lambda>process_metrics.
     bindE (PerformanceAnalyzer_analyze_processes process_metrics) (\<lambda>processes.
       let results = [(''cpu'', cpu), (''memory'', memory), (''disk'', disk),
                      (''network'', network), (''processes'', processes)]
       in Inr (store_health results ''health'' (PerformanceAnalyzer_calculate_health results))))))))))))"

definition ResourceAnalyzer_analyze :: "thresholds \<Rightarrow> pyval \<Rightarrow> error + analysis_result" where
  "ResourceAnalyzer_analyze th metrics =
     bindE (py_get metrics ''disk'' (PDict [])) (\<lambda>disk_metrics.
     bindE (ResourceAnalyzer_analyze_disk th disk_metrics) (\<lambda>disk.
     bindE (py_get metrics ''memory'' (PDict [])) (\<lambda>memory_metrics.
     bindE (ResourceAnalyzer_analyze_memory th memory_metrics) (\<lambda>memory.
     bindE (py_get metrics ''swap'' (PDict [])) (\<lambda>swap_metrics.
     bindE (ResourceAnalyzer_analyze_swap th swap_metrics) (\<lambda>swap.
     bindE (py_get metrics ''file_system'' (PDict [])) (\<lambda>fs_metrics.
     bindE (ResourceAnalyzer_analyze_file_system fs_metrics) (\<lambda>file_system.
     bindE (py_get metrics ''processes'' (PList [])) (\<lambda>process_metrics.
     bindE (ResourceAnalyzer_analyze_processes process_metrics) (\<lambda>processes.
       let results = [(''disk'', disk), (''memory'', memory), (''swap'', swap),
                      (''file_system'', file_system), (''processes'', processes)]
       in Inr (store_health results ''health'' (ResourceAnalyzer_calculate_health results))))))))))))"

text \<open>
  The security analyzer object: the configuration data it was built from and
  \<^verbatim>\<open>self.checks\<close>. \<^verbatim>\<open>analyze\<close> receives the object and reads neither field.
\<close>

record security_analyzer =
  config_data :: pyval
  checks :: "(string \<times> bool) list"

definition SecurityAnalyzer_analyze :: "security_analyzer \<Rightarrow> pyval \<Rightarrow> error + analysis_result" where
  "SecurityAnalyzer_analyze self metrics =
     bindE (py_get metrics ''ports'' (PList [])) (\<lambda>port_metrics.
     bindE (SecurityAnalyzer_analyze_ports port_metrics) (\<lambda>ports.
     bindE (py_get metrics ''services'' (PList [])) (\<lambda>service_metrics.
     bindE (SecurityAnalyzer_analyze_services service_metrics) (\<lambda>services.
     bindE (py_get metrics ''updates'' (PDict [])) (\<lambda>update_metrics.
     bindE (SecurityAnalyzer_analyze_updates update_metrics) (\<lambda>updates.
     bindE (py_get metrics ''firewall'' (PDict [])) (\<lambda>firewall_metrics.
     bindE (SecurityAnalyzer_analyze_firewall firewall_metrics) (\<lambda>firewall.
     bindE (py_get metrics ''antivirus'' (PDict [])) (\<lambda>antivirus_metrics.
     bindE (SecurityAnalyzer_analyze_antivirus antivirus_metrics) (\<lambda>antivirus.
     bindE (py_get metrics ''ssl'' (PList [])) (\<lambda>ssl_metrics.
     bindE (SecurityAnalyzer_analyze_ssl ssl_metrics) (\<lambda>ssl.
       let results = [(''ports'', ports), (''services'', services), (''updates'', updates),
                      (''firewall'', firewall), (''antivirus'', antivirus), (''ssl'', ssl)]
       in Inr (store_health results ''security_score''
                 (SecurityAnalyzer_calculate_security_score results))))))))))))))"

section \<open>Loading the security checks\<close>

text \<open>
  The configuration data is what \<^verbatim>\<open>yaml.safe_load\<close> returned, an arbitrary value.
  \<^verbatim>\<open>'key' in v\<close> is key membership on a dictionary, element membership on a list and
  substring search on a string; \<^verbatim>\<open>v['key']\<close> is defined on dictionaries only.
\<close>

fun py_contains :: "string \<Rightarrow> pyval \<Rightarrow> error + bool" where
  "py_contains k (PDict kvs) = Inr (map_of kvs k \<noteq> None)"
| "py_contains k (PList xs) = Inr (PStr k \<in> set xs)"
| "py_contains k (PStr s) = Inr (sublist k s)"
| "py_contains k _ = Inl TypeError"

fun py_getitem :: "pyval \<Rightarrow> string \<Rightarrow> error + pyval" where
  "py_getitem (PDict kvs) k = (case map_of kvs k of None \<Rightarrow> Inl KeyError | Some v \<Rightarrow> Inr v)"
| "py_getitem _ k = Inl TypeError"

text \<open>The initial dictionary \<^verbatim>\<open>checks\<close> of \<^verbatim>\<open>_load_security_checks\<close>.\<close>

definition default_checks :: "(string \<times> bool) list" where
  "default_checks =
     [(''open_ports'', True), (''running_services'', True), (''system_updates'', True),
      (''firewall_status'', True), (''antivirus_status'', True), (''ssl_certificates'', True)]"

text \<open>\<^verbatim>\<open>checks[name] = True\<close> for a key that is present.\<close>

definition set_check :: "string \<Rightarrow> (string \<times> bool) list \<Rightarrow> (string \<times> bool) list" where
  "set_check name cs = map (\<lambda>kv. if fst kv = name then (fst kv, True) else kv) cs"

text \<open>The loop body: \<^verbatim>\<open>if check in checks: checks[check] = True\<close>. Membership hashes
  \<open>check\<close>, which a list or a dictionary does not allow; only a string is equal to a key.\<close>

fun enable_check :: "pyval \<Rightarrow> (string \<times> bool) list \<Rightarrow> error + (string \<times> bool) list" where
  "enable_check (PStr name) cs = Inr (if name \<in> set (map fst cs) then set_check name cs else cs)"
| "enable_check (PList xs) cs = Inl TypeError"
| "enable_check (PDict kvs) cs = Inl TypeError"
| "enable_check _ cs = Inr cs"

definition SecurityAnalyzer_load_security_checks :: "pyval \<Rightarrow> error + (string \<times> bool) list" where
  "SecurityAnalyzer_load_security_checks cfg =
     bindE (py_contains ''analysis'' cfg) (\<lambda>has_analysis.
       if has_analysis then
         bindE (py_getitem cfg ''analysis'') (\<lambda>analysis.
         bindE (py_contains ''security'' analysis) (\<lambda>has_security.
         bindE (if has_security
                then bindE (py_getitem analysis ''security'') (py_contains ''checks'')
                else Inr False) (\<lambda>has_checks.
           if has_checks then
             bindE (py_getitem analysis ''security'') (\<lambda>security.
             bindE (py_getitem security ''checks'') (\<lambda>config_checks.
             bindE (py_iter config_checks) (\<lambda>cs.
               for_each enable_check cs default_checks)))
           else Inr default_checks)))
       else Inr default_checks)"

text \<open>\<^verbatim>\<open>SecurityAnalyzer.__init__\<close>.\<close>

definition SecurityAnalyzer_init :: "pyval \<Rightarrow> error + security_analyzer" where
  "SecurityAnalyzer_init cfg =
     bindE (SecurityAnalyzer_load_security_checks cfg) (\<lambda>cs.
       Inr \<lparr>config_data = cfg, checks = cs\<rparr>)"

text \<open>The defaults of \<^verbatim>\<open>_load_thresholds\<close> in performance.py (cpu, memory, disk) and
  in resources.py (disk, memory, swap); the last branch is the third row of the table.\<close>

definition default_performance_thresholds :: thresholds where
  "default_performance_thresholds name =
     (if name = ''cpu'' then \<lparr>warning = PFloat 80, critical = PFloat 90\<rparr>
      else if name = ''memory'' then \<lparr>warning = PFloat 75, critical = PFloat 85\<rparr>
      else \<lparr>warning = PFloat 80, critical = PFloat 90\<rparr>)"

definition default_resource_thresholds :: thresholds where
  "default_resource_thresholds name =
     (if name = ''disk'' then \<lparr>warning = PFloat 80, critical = PFloat 90\<rparr>
      else if name = ''memory'' then \<lparr>warning = PFloat 75, critical = PFloat 85\<rparr>
      else \<lparr>warning = PFloat 70, critical = PFloat 80\<rparr>)"

section \<open>Loading the thresholds\<close>

text \<open>
  \<^verbatim>\<open>thresholds[metric].update(values)\<close>. When \<open>values\<close> is a dictionary its entries
  replace those of the row. Otherwise \<open>values\<close> is iterated and each element must itself
  yield exactly two items, a key and a value (\<^verbatim>\<open>ValueError\<close> for another number of
  items, \<^verbatim>\<open>TypeError\<close> for an element that cannot be iterated or a key that cannot be
  hashed). Keys other than \<^verbatim>\<open>'warning'\<close> and \<^verbatim>\<open>'critical'\<close> are stored and never
  read, so the row does not keep them.
\<close>

fun update_pair :: "pyval \<Rightarrow> error + (pyval \<times> pyval)" where
  "update_pair (PList [k, v]) = Inr (k, v)"
| "update_pair (PList xs) = Inl ValueError"
| "update_pair (PStr [a, b]) = Inr (PStr [a], PStr [b])"
| "update_pair (PStr s) = Inl ValueError"
| "update_pair (PDict [kv1, kv2]) = Inr (PStr (fst kv1), PStr (fst kv2))"
| "update_pair (PDict kvs) = Inl ValueError"
| "update_pair _ = Inl TypeError"

fun set_threshold_key :: "pyval \<Rightarrow> pyval \<Rightarrow> threshold \<Rightarrow> error + threshold" where
  "set_threshold_key (PStr k) v t =
     Inr (if k = ''warning'' then t\<lparr>warning := v\<rparr>
          else if k = ''critical'' then t\<lparr>critical := v\<rparr> else t)"
| "set_threshold_key (PList xs) v t = Inl TypeError"
| "set_threshold_key (PDict kvs) v t = Inl TypeError"
| "set_threshold_key _ v t = Inr t"

definition update_from_pair :: "pyval \<Rightarrow> threshold \<Rightarrow> error + threshold" where
  "update_from_pair x t = bindE (update_pair x) (\<lambda>kv. set_threshold_key (fst kv) (snd kv) t)"

fun dict_update :: "threshold \<Rightarrow> pyval \<Rightarrow> error + threshold" where
  "dict_update t (PDict kvs) =
     Inr \<lparr>warning = (case map_of kvs ''warning'' of None \<Rightarrow> warning t | Some v \<Rightarrow> v),
          critical = (case map_of kvs ''critical'' of None \<Rightarrow> critical t | Some v \<Rightarrow> v)\<rparr>"
| "dict_update t values = bindE (py_iter values) (\<lambda>xs. for_each update_from_pair xs t)"

text \<open>\<^verbatim>\<open>config_thresholds.items()\<close>: only a dictionary has the method.\<close>

fun py_items :: "pyval \<Rightarrow> error + (string \<times> pyval) list" where
  "py_items (PDict kvs) = Inr kvs"
| "py_items _ = Inl AttributeError"

text \<open>The loop body: \<^verbatim>\<open>if metric in thresholds: thresholds[metric].update(values)\<close>,
  where \<open>names\<close> are the keys of the table.\<close>

definition override_threshold :: "string list \<Rightarrow> string \<times> pyval \<Rightarrow> thresholds \<Rightarrow> error + thresholds" where
  "override_threshold names item th =
     (if fst item \<in> set names
      then bindE (dict_update (th (fst item)) (snd item)) (\<lambda>t. Inr (th(fst item := t)))
      else Inr th)"

text \<open>
  \<^verbatim>\<open>_load_thresholds\<close> of performance.py and of resources.py. The two copies differ in
  the default table and in the configuration key (\<^verbatim>\<open>'performance'\<close>,
  \<^verbatim>\<open>'resources'\<close>) under which they look for \<^verbatim>\<open>'thresholds'\<close>.
\<close>

definition load_thresholds :: "string \<Rightarrow> string list \<Rightarrow> thresholds \<Rightarrow> pyval \<Rightarrow> error + thresholds" where
  "load_thresholds domain names defaults cfg =
     bindE (py_contains ''analysis'' cfg) (\<lambda>has_analysis.
       if has_analysis then
         bindE (py_getitem cfg ''analysis'') (\<lambda>analysis.
         bindE (py_contains domain analysis) (\<lambda>has_domain.
         bindE (if has_domain
                then bindE (py_getitem analysis domain) (py_contains ''thresholds'')
                else Inr False) (\<lambda>has_thresholds.
           if has_thresholds then
             bindE (py_getitem analysis domain) (\<lambda>domain_cfg.
             bindE (py_getitem domain_cfg ''thresholds'') (\<lambda>config_thresholds.
             bindE (py_items config_thresholds) (\<lambda>items.
               for_each (override_threshold names) items defaults)))
           else Inr defaults)))
       else Inr defaults)"

definition PerformanceAnalyzer_load_thresholds :: "pyval \<Rightarrow> error + thresholds" where
  "PerformanceAnalyzer_load_thresholds cfg =
     load_thresholds ''performance'' [''cpu'', ''memory'', ''disk''] default_performance_thresholds cfg"

definition ResourceAnalyzer_load_thresholds :: "pyval \<Rightarrow> error + thresholds" where
  "ResourceAnalyzer_load_thresholds cfg =
     load_thresholds ''resources'' [''disk'', ''memory'', ''swap''] default_resource_thresholds cfg"

section \<open>Snapshots of the expected shape\<close>

text \<open>
  The shape of a snapshot in which every field that is present has the type the evaluator
  reading it expects. No key is required: \<open>field_ok P k d\<close> says that \<open>d\<close> is a dictionary
  and that the value under \<open>k\<close>, if there is one, satisfies \<open>P\<close>.
\<close>

fun is_dict :: "pyval \<Rightarrow> bool" where
  "is_dict (PDict kvs) = True"
| "is_dict _ = False"

fun is_str :: "pyval \<Rightarrow> bool" where
  "is_str (PStr s) = True"
| "is_str _ = False"

fun is_hashable :: "pyval \<Rightarrow> bool" where
  "is_hashable (PList xs) = False"
| "is_hashable (PDict kvs) = False"
| "is_hashable _ = True"

definition is_number :: "pyval \<Rightarrow> bool" where
  "is_number v = (num_of v \<noteq> None)"

fun field_ok :: "(pyval \<Rightarrow> bool) \<Rightarrow> string \<Rightarrow> pyval \<Rightarrow> bool" where
  "field_ok P k (PDict kvs) = (case map_of kvs k of None \<Rightarrow> True | Some v \<Rightarrow> P v)"
| "field_ok P k _ = False"

fun list_of :: "(pyval \<Rightarrow> bool) \<Rightarrow> pyval \<Rightarrow> bool" where
  "list_of P (PList xs) = list_all P xs"
| "list_of P _ = False"

definition usage_record :: "pyval \<Rightarrow> bool" where
  "usage_record d = field_ok is_number ''usage'' d"

definition process_record :: "pyval \<Rightarrow> bool" where
  "process_record p = (field_ok is_number ''cpu_percent'' p \<and> field_ok is_number ''memory_percent'' p)"

definition performance_snapshot :: "pyval \<Rightarrow> bool" where
  "performance_snapshot m =
     (field_ok usage_record ''cpu'' m \<and> field_ok usage_record ''memory'' m \<and>
      field_ok usage_record ''disk'' m \<and> field_ok is_dict ''network'' m \<and>
      field_ok (list_of process_record) ''processes'' m)"

definition security_snapshot :: "pyval \<Rightarrow> bool" where
  "security_snapshot m =
     (field_ok (list_of (field_ok is_hashable ''port'')) ''ports'' m \<and>
      field_ok (list_of (field_ok is_str ''name'')) ''services'' m \<and>
      field_ok (field_ok is_number ''updates_available'') ''updates'' m \<and>
      field_ok is_dict ''firewall'' m \<and> field_ok is_dict ''antivirus'' m \<and>
      field_ok (list_of is_dict) ''ssl'' m)"

definition resource_snapshot :: "pyval \<Rightarrow> bool" where
  "resource_snapshot m =
     (field_ok usage_record ''disk'' m \<and> field_ok usage_record ''memory'' m \<and>
      field_ok usage_record ''swap'' m \<and>
      field_ok (field_ok (list_of (field_ok is_number ''size'')) ''largest_files'') ''file_system'' m \<and>
      field_ok (list_of process_record) ''processes'' m)"

text \<open>A threshold table whose rows \<open>names\<close> hold numbers.\<close>

definition numeric_thresholds :: "thresholds \<Rightarrow> string list \<Rightarrow> bool" where
  "numeric_thresholds th names =
     list_all (\<lambda>n. is_number (warning (th n)) \<and> is_number (critical (th n))) names"

section \<open>Defaults for missing keys\<close>

text \<open>The value a record holds under a key, or the default when the key is missing.\<close>

definition sub_record :: "(string \<times> pyval) list \<Rightarrow> string \<Rightarrow> pyval \<Rightarrow> pyval" where
  "sub_record kvs k d = (case map_of kvs k of None \<Rightarrow> d | Some v \<Rightarrow> v)"

text \<open>A record completed from a table of defaults: every key of the table that the record
  lacks is added with its default; the keys the record has keep their values.\<close>

definition with_defaults :: "(string \<times> pyval) list \<Rightarrow> (string \<times> pyval) list \<Rightarrow> (string \<times> pyval) list" where
  "with_defaults defaults kvs = kvs @ filter (\<lambda>kd. map_of kvs (fst kd) = None) defaults"

text \<open>The categories each \<^verbatim>\<open>analyze\<close> reads from the snapshot, with the default of each
  \<^verbatim>\<open>metrics.get\<close>.\<close>

definition performance_categories :: "(string \<times> pyval) list" where
  "performance_categories =
     [(''cpu'', PDict []), (''memory'', PDict []), (''disk'', PDict []), (''network'', PDict []),
      (''processes'', PList [])]"

definition security_categories :: "(string \<times> pyval) list" where
  "security_categories =
     [(''ports'', PList []), (''services'', PList []), (''updates'', PDict []),
      (''firewall'', PDict []), (''antivirus'', PDict []), (''ssl'', PList [])]"

definition resource_categories :: "(string \<times> pyval) list" where
  "resource_categories =
     [(''disk'', PDict []), (''memory'', PDict []), (''swap'', PDict []),
      (''file_system'', PDict []), (''processes'', PList [])]"

text \<open>The evaluators that read the fields of one mapping, each with the fields it reads
  and the default of each \<^verbatim>\<open>.get\<close>.\<close>

definition record_evaluators ::
  "thresholds \<Rightarrow> thresholds \<Rightarrow> ((pyval \<Rightarrow> error + category_result) \<times> (string \<times> pyval) list) list" where
  "record_evaluators th th' =
     [(PerformanceAnalyzer_analyze_cpu th, [(''usage'', PFloat 0)]),
      (PerformanceAnalyzer_analyze_memory th,
         [(''usage'', PFloat 0), (''available'', PInt 0), (''total'', PInt 0)]),
      (PerformanceAnalyzer_analyze_disk th,
         [(''usage'', PFloat 0), (''free'', PInt 0), (''total'', PInt 0)]),
      (PerformanceAnalyzer_analyze_network,
         [(''bytes_sent'', PInt 0), (''bytes_recv'', PInt 0), (''packets_sent'', PInt 0),
          (''packets_recv'', PInt 0)]),
      (ResourceAnalyzer_analyze_disk th',
         [(''usage'', PFloat 0), (''free'', PInt 0), (''total'', PInt 0)]),
      (ResourceAnalyzer_analyze_memory th',
         [(''usage'', PFloat 0), (''available'', PInt 0), (''total'', PInt 0)]),
      (ResourceAnalyzer_analyze_swap th',
         [(''usage'', PFloat 0), (''free'', PInt 0), (''total'', PInt 0)]),
      (ResourceAnalyzer_analyze_file_system,
         [(''total_files'', PInt 0), (''total_dirs'', PInt 0), (''largest_files'', PList [])]),
      (SecurityAnalyzer_analyze_updates,
         [(''last_update'', PStr ''unknown''), (''updates_available'', PInt 0)]),
      (SecurityAnalyzer_analyze_firewall, [(''enabled'', PBool False), (''rules'', PList [])]),
      (SecurityAnalyzer_analyze_antivirus,
         [(''enabled'', PBool False), (''last_scan'', PStr ''unknown'')])]"

text \<open>The loop bodies that read the fields of one list element into a list of flagged
  entries, and the fields a process record is read for, with their defaults.\<close>

definition element_checks ::
  "((pyval \<Rightarrow> pyval list \<Rightarrow> error + pyval list) \<times> (string \<times> pyval) list) list" where
  "element_checks =
     [(check_port, [(''port'', PNone), (''state'', PStr ''unknown'')]),
      (check_service, [(''name'', PStr []), (''status'', PStr ''unknown'')])]"

definition process_defaults :: "(string \<times> pyval) list" where
  "process_defaults =
     [(''cpu_percent'', PInt 0), (''memory_percent'', PInt 0), (''pid'', PNone), (''name'', PNone),
      (''status'', PNone)]"

section \<open>The aggregation rule in the words of the specification\<close>

text \<open>
  Start from score 100; subtract 25 and append the issues for each Critical result, subtract
  10 and append the issues for each Warning result, leave the others alone; the status is
  Critical for a score of at most 50, Warning for a score of at most 75, and the initial
  status otherwise. The entry named \<open>skip\<close> is the aggregate itself and not a category.
\<close>

definition aggregate_spec :: "string \<Rightarrow> status \<Rightarrow> (string \<times> category_result) list \<Rightarrow> health_result" where
  "aggregate_spec skip initial results =
     (let cats = filter (\<lambda>kv. fst kv \<noteq> skip) results;
          total = 100 - 25 * int (length (filter (\<lambda>kv. status (snd kv) = Critical) cats))
                      - 10 * int (length (filter (\<lambda>kv. status (snd kv) = Warning) cats))
      in \<lparr>status = (if total \<le> 50 then Critical else if total \<le> 75 then Warning else initial),
          issues = concat (map (\<lambda>kv. issues (snd kv))
                     (filter (\<lambda>kv. status (snd kv) = Critical \<or> status (snd kv) = Warning) cats)),
          score = total\<rparr>)"

section \<open>Inputs of the properties\<close>

text \<open>The six usage-percentage evaluators, each with the name of its row of the
  threshold table.\<close>

definition usage_evaluators :: "((thresholds \<Rightarrow> pyval \<Rightarrow> error + category_result) \<times> string) list" where
  "usage_evaluators =
     [(PerformanceAnalyzer_analyze_cpu, ''cpu''), (PerformanceAnalyzer_analyze_memory, ''memory''),
      (PerformanceAnalyzer_analyze_disk, ''disk''), (ResourceAnalyzer_analyze_disk, ''disk''),
      (ResourceAnalyzer_analyze_memory, ''memory''), (ResourceAnalyzer_analyze_swap, ''swap'')]"

text \<open>A port record \<^verbatim>\<open>{'port': n, 'state': s}\<close> as the ports evaluator receives it, and
  the entry the evaluator appends to \<^verbatim>\<open>results['open']\<close> for it when it flags it.\<close>

definition port_record :: "int \<times> string \<Rightarrow> pyval" where
  "port_record p = PDict [(''port'', PInt (fst p)), (''state'', PStr (snd p))]"

definition flagged_port :: "int \<times> string \<Rightarrow> pyval" where
  "flagged_port p =
     PDict [(''port'', PInt (fst p)),
            (''service'', PStr (case map_of vulnerable_ports (fst p) of None \<Rightarrow> [] | Some s \<Rightarrow> s)),
            (''state'', PStr (snd p))]"

text \<open>A certificate record has the flag \<open>k\<close> when the key is present with the value
  \<^verbatim>\<open>True\<close>; its flags are Booleans when every flag that is present is \<^verbatim>\<open>True\<close> or
  \<^verbatim>\<open>False\<close>.\<close>

definition has_flag :: "string \<Rightarrow> (string \<times> pyval) list \<Rightarrow> bool" where
  "has_flag k cert = (map_of cert k = Some (PBool True))"

definition bool_flag :: "string \<Rightarrow> (string \<times> pyval) list \<Rightarrow> bool" where
  "bool_flag k cert = (case map_of cert k of None \<Rightarrow> True | Some (PBool b) \<Rightarrow> True | Some _ \<Rightarrow> False)"

section \<open>Properties of the aggregation loop\<close>

lemma health_loop_status: "status (health_loop skip rs h) = status h"
  by (induction skip rs h rule: health_loop.induct) auto

lemma health_loop_score:
  "score (health_loop skip rs h) =
     score h
       - 25 * int (length (filter (\<lambda>kv. status (snd kv) = Critical) (filter (\<lambda>kv. fst kv \<noteq> skip) rs)))
       - 10 * int (length (filter (\<lambda>kv. status (snd kv) = Warning) (filter (\<lambda>kv. fst kv \<noteq> skip) rs)))"
  by (induction skip rs h rule: health_loop.induct) auto

lemma health_loop_issues:
  "issues (health_loop skip rs h) =
     issues h @ concat (map (\<lambda>kv. issues (snd kv))
       (filter (\<lambda>kv. status (snd kv) = Critical \<or> status (snd kv) = Warning)
          (filter (\<lambda>kv. fst kv \<noteq> skip) rs)))"
  by (induction skip rs h rule: health_loop.induct) auto

lemma health_loop_all_normal:
  "\<forall>kv \<in> set rs. status (snd kv) = Normal \<Longrightarrow> health_loop skip rs h = h"
  by (induction skip rs h rule: health_loop.induct) auto

lemma health_loop_append:
  "health_loop skip (xs @ ys) h = health_loop skip ys (health_loop skip xs h)"
  by (induction skip xs h rule: health_loop.induct) auto

lemma one_critical:
  assumes "k \<noteq> ''health''" "status r = Critical" "\<forall>kv \<in> set (xs @ ys). status (snd kv) = Normal"
  shows "PerformanceAnalyzer_calculate_health (xs @ (k, r) # ys)
           = \<lparr>status = Warning, issues = issues r, score = 75\<rparr>"
  using assms
  by (simp add: PerformanceAnalyzer_calculate_health_def update_overall_status_def
       health_loop_append health_loop_all_normal)

lemma two_critical:
  assumes "k1 \<noteq> ''health''" "status r1 = Critical" "k2 \<noteq> ''health''" "status r2 = Critical"
     "\<forall>kv \<in> set (xs @ ys @ zs). status (snd kv) = Normal"
  shows "PerformanceAnalyzer_calculate_health (xs @ (k1, r1) # ys @ (k2, r2) # zs)
           = \<lparr>status = Critical, issues = issues r1 @ issues r2, score = 50\<rparr>"
  using assms
  by (simp add: PerformanceAnalyzer_calculate_health_def update_overall_status_def
       health_loop_append health_loop_all_normal)

text \<open>
  C2. The health aggregator of the performance analyzer, on any mapping \<open>results\<close> of
  category results (the key \<^verbatim>\<open>'health'\<close>, which names the aggregate itself, is passed
  over): the score is 100 minus 25 for each Critical result and minus 10 for each Warning
  result, Normal results changing nothing; the issues are those of the Critical and Warning
  results, in the order of the mapping; the status is Critical iff the score is at most 50,
  Warning iff it is above 50 and at most 75, and Healthy otherwise. In particular one
  Critical result among Normal ones gives score 75 and status Warning, and two Critical
  results among Normal ones give score 50 and status Critical.
\<close>

theorem health_aggregation:
  "(let cats = filter (\<lambda>kv. fst kv \<noteq> ''health'') results;
        h = PerformanceAnalyzer_calculate_health results
    in score h = 100 - 25 * int (length (filter (\<lambda>kv. status (snd kv) = Critical) cats))
                     - 10 * int (length (filter (\<lambda>kv. status (snd kv) = Warning) cats))
     \<and> issues h = concat (map (\<lambda>kv. issues (snd kv))
                     (filter (\<lambda>kv. status (snd kv) = Critical \<or> status (snd kv) = Warning) cats))
     \<and> (status h = Critical \<longleftrightarrow> score h \<le> 50)
     \<and> (status h = Warning \<longleftrightarrow> 50 < score h \<and> score h \<le> 75)
     \<and> (status h = Healthy \<longleftrightarrow> 75 < score h))
   \<and> (k \<noteq> ''health'' \<and> status r = Critical \<and> (\<forall>kv \<in> set (xs @ ys). status (snd kv) = Normal)
        \<longrightarrow> PerformanceAnalyzer_calculate_health (xs @ (k, r) # ys)
              = \<lparr>status = Warning, issues = issues r, score = 75\<rparr>)
   \<and> (k \<noteq> ''health'' \<and> status r = Critical \<and> k' \<noteq> ''health'' \<and> status r' = Critical
        \<and> (\<forall>kv \<in> set (xs @ ys @ zs). status (snd kv) = Normal)
        \<longrightarrow> PerformanceAnalyzer_calculate_health (xs @ (k, r) # ys @ (k', r') # zs)
              = \<lparr>status = Critical, issues = issues r @ issues r', score = 50\<rparr>)"
proof (intro conjI impI)
  show "let cats = filter (\<lambda>kv. fst kv \<noteq> ''health'') results;
        h = PerformanceAnalyzer_calculate_health results
    in score h = 100 - 25 * int (length (filter (\<lambda>kv. status (snd kv) = Critical) cats))
                     - 10 * int (length (filter (\<lambda>kv. status (snd kv) = Warning) cats))
     \<and> issues h = concat (map (\<lambda>kv. issues (snd kv))
                     (filter (\<lambda>kv. status (snd kv) = Critical \<or> status (snd kv) = Warning) cats))
     \<and> (status h = Critical \<longleftrightarrow> score h \<le> 50)
     \<and> (status h = Warning \<longleftrightarrow> 50 < score h \<and> score h \<le> 75)
     \<and> (status h = Healthy \<longleftrightarrow> 75 < score h)"
    by (simp add: Let_def PerformanceAnalyzer_calculate_health_def update_overall_status_def
       health_loop_score health_loop_issues health_loop_status)
next
  assume "k \<noteq> ''health'' \<and> status r = Critical \<and> (\<forall>kv \<in> set (xs @ ys). status (snd kv) = Normal)"
  then show "PerformanceAnalyzer_calculate_health (xs @ (k, r) # ys)
              = \<lparr>status = Warning, issues = issues r, score = 75\<rparr>"
    by (simp add: one_critical)
next
  assume "k \<noteq> ''health'' \<and> status r = Critical \<and> k' \<noteq> ''health'' \<and> status r' = Critical
        \<and> (\<forall>kv \<in> set (xs @ ys @ zs). status (snd kv) = Normal)"
  then show "PerformanceAnalyzer_calculate_health (xs @ (k, r) # ys @ (k', r') # zs)
              = \<lparr>status = Critical, issues = issues r @ issues r', score = 50\<rparr>"
    by (simp add: two_critical)
qed

theorem health_aggregation_witness:
  "PerformanceAnalyzer_calculate_health
      [(''cpu'', \<lparr>status = Normal, issues = [], details = []\<rparr>),
       (''memory'', \<lparr>status = Critical, issues = [[Lit ''m'']], details = []\<rparr>),
       (''disk'', \<lparr>status = Normal, issues = [], details = []\<rparr>)]
     = \<lparr>status = Warning, issues = [[Lit ''m'']], score = 75\<rparr>
   \<and> PerformanceAnalyzer_calculate_health
      [(''cpu'', \<lparr>status = Critical, issues = [[Lit ''c'']], details = []\<rparr>),
       (''memory'', \<lparr>status = Critical, issues = [[Lit ''m'']], details = []\<rparr>)]
     = \<lparr>status = Critical, issues = [[Lit ''c''], [Lit ''m'']], score = 50\<rparr>"
  using
    health_aggregation [where results = "[]" and k = "''memory''"
      and r = "\<lparr>status = Critical, issues = [[Lit ''m'']], details = []\<rparr>"
      and xs = "[(''cpu'', \<lparr>status = Normal, issues = [], details = []\<rparr>)]"
      and ys = "[(''disk'', \<lparr>status = Normal, issues = [], details = []\<rparr>)]"
      and k' = "''memory''"
      and r' = "\<lparr>status = Critical, issues = [[Lit ''m'']], details = []\<rparr>" and zs = "[]"]
    health_aggregation [where results = "[]" and k = "''cpu''"
      and r = "\<lparr>status = Critical, issues = [[Lit ''c'']], details = []\<rparr>"
      and xs = "[]" and ys = "[]" and k' = "''memory''"
      and r' = "\<lparr>status = Critical, issues = [[Lit ''m'']], details = []\<rparr>" and zs = "[]"]
  by simp

lemma aggregate_refines:
  "update_overall_status (health_loop skip rs \<lparr>status = initial, issues = [], score = 100\<rparr>)
     = aggregate_spec skip initial rs"
  by (rule health_result.equality)
     (simp_all add: update_overall_status_def aggregate_spec_def Let_def health_loop_score
        health_loop_issues health_loop_status)

text \<open>
  C3, as the code has it. The three aggregators follow one rule, the aggregation rule of
  the specification: the performance and the resource aggregator with initial status Healthy,
  the security aggregator with initial status Secure (and each passing over the key it
  stores its own result under). So when every category result is Normal, each returns score
  100 and no issues, with status Healthy for the performance and the resource analyzer and
  Secure for the security analyzer.
\<close>

theorem all_normal_aggregate:
  "PerformanceAnalyzer_calculate_health results = aggregate_spec ''health'' Healthy results
   \<and> ResourceAnalyzer_calculate_health results = aggregate_spec ''health'' Healthy results
   \<and> SecurityAnalyzer_calculate_security_score results
       = aggregate_spec ''security_score'' Secure results
   \<and> ((\<forall>kv \<in> set results. status (snd kv) = Normal) \<longrightarrow>
        PerformanceAnalyzer_calculate_health results = \<lparr>status = Healthy, issues = [], score = 100\<rparr>
      \<and> ResourceAnalyzer_calculate_health results = \<lparr>status = Healthy, issues = [], score = 100\<rparr>
      \<and> SecurityAnalyzer_calculate_security_score results
          = \<lparr>status = Secure, issues = [], score = 100\<rparr>)"
  by (simp add: PerformanceAnalyzer_calculate_health_def ResourceAnalyzer_calculate_health_def
        SecurityAnalyzer_calculate_security_score_def aggregate_refines [symmetric]
        update_overall_status_def health_loop_all_normal)

theorem all_normal_aggregate_witness:
  "PerformanceAnalyzer_calculate_health
     [(''cpu'', \<lparr>status = Normal, issues = [], details = [(''usage'', PFloat 3)]\<rparr>),
      (''network'', \<lparr>status = Normal, issues = [], details = []\<rparr>)]
     = \<lparr>status = Healthy, issues = [], score = 100\<rparr>
   \<and> SecurityAnalyzer_calculate_security_score
     [(''cpu'', \<lparr>status = Normal, issues = [], details = [(''usage'', PFloat 3)]\<rparr>),
      (''network'', \<lparr>status = Normal, issues = [], details = []\<rparr>)]
     = \<lparr>status = Secure, issues = [], score = 100\<rparr>"
proof -
  have all_normal:
    "\<forall>kv \<in> set [(''cpu'', \<lparr>status = Normal, issues = [], details = [(''usage'', PFloat 3)]\<rparr>),
                    (''network'', \<lparr>status = Normal, issues = [], details = []\<rparr>)].
       status (snd kv) = Normal"
    by simp
  from all_normal_aggregate
    [of "[(''cpu'', \<lparr>status = Normal, issues = [], details = [(''usage'', PFloat 3)]\<rparr>),
          (''network'', \<lparr>status = Normal, issues = [], details = []\<rparr>)]"] all_normal
  show ?thesis by blast
qed

text \<open>
  C3 as stated fails in the security domain: with its six categories all Normal the
  aggregate is not \<open>{score: 100, status: Healthy, issues: []}\<close>.
\<close>

theorem security_all_normal_counterexample:
  "SecurityAnalyzer_calculate_security_score
     [(''ports'', \<lparr>status = Normal, issues = [], details = []\<rparr>),
      (''services'', \<lparr>status = Normal, issues = [], details = []\<rparr>),
      (''updates'', \<lparr>status = Normal, issues = [], details = []\<rparr>),
      (''firewall'', \<lparr>status = Normal, issues = [], details = []\<rparr>),
      (''antivirus'', \<lparr>status = Normal, issues = [], details = []\<rparr>),
      (''ssl'', \<lparr>status = Normal, issues = [], details = []\<rparr>)]
   \<noteq> \<lparr>status = Healthy, issues = [], score = 100\<rparr>"
  by (simp add: SecurityAnalyzer_calculate_security_score_def update_overall_status_def)

lemma update_overall_status_score: "score (update_overall_status h) = score h"
  by (simp add: update_overall_status_def)

lemma health_loop_score_le:
  "status r = Normal \<Longrightarrow>
   score (health_loop skip (xs @ (k, r') # ys) h) \<le> score (health_loop skip (xs @ (k, r) # ys) h)"
  by (simp add: health_loop_score)

text \<open>
  C10. With all other categories fixed, replacing a Normal result of one category by any
  other result never raises the score, in each of the three aggregators.
\<close>

theorem score_monotone:
  "status r = Normal \<Longrightarrow>
     score (PerformanceAnalyzer_calculate_health (xs @ (k, r') # ys))
       \<le> score (PerformanceAnalyzer_calculate_health (xs @ (k, r) # ys))
   \<and> score (ResourceAnalyzer_calculate_health (xs @ (k, r') # ys))
       \<le> score (ResourceAnalyzer_calculate_health (xs @ (k, r) # ys))
   \<and> score (SecurityAnalyzer_calculate_security_score (xs @ (k, r') # ys))
       \<le> score (SecurityAnalyzer_calculate_security_score (xs @ (k, r) # ys))"
  by (simp add: PerformanceAnalyzer_calculate_health_def ResourceAnalyzer_calculate_health_def
        SecurityAnalyzer_calculate_security_score_def update_overall_status_score health_loop_score_le)

theorem score_monotone_witness:
  "score (PerformanceAnalyzer_calculate_health
            [(''cpu'', \<lparr>status = Warning, issues = [], details = []\<rparr>),
             (''disk'', \<lparr>status = Critical, issues = [], details = []\<rparr>)])
   \<le> score (PerformanceAnalyzer_calculate_health
            [(''cpu'', \<lparr>status = Warning, issues = [], details = []\<rparr>),
             (''disk'', \<lparr>status = Normal, issues = [], details = []\<rparr>)])"
proof -
  have was_normal: "status \<lparr>status = Normal, issues = [], details = []\<rparr> = Normal"
    by simp
  from score_monotone [OF was_normal,
      where xs = "[(''cpu'', \<lparr>status = Warning, issues = [], details = []\<rparr>)]" and k = "''disk''"
        and r' = "\<lparr>status = Critical, issues = [], details = []\<rparr>" and ys = "[]"]
  show ?thesis by simp
qed

section \<open>Evaluating the analyzers\<close>

lemmas evaluator_defs =
  bindE_def check_usage_def py_gt_def
  PerformanceAnalyzer_analyze_cpu_def PerformanceAnalyzer_analyze_memory_def
  PerformanceAnalyzer_analyze_disk_def PerformanceAnalyzer_analyze_network_def
  PerformanceAnalyzer_analyze_processes_def process_entry_def check_process_def
  process_count_issues_def
  ResourceAnalyzer_analyze_disk_def ResourceAnalyzer_analyze_memory_def
  ResourceAnalyzer_analyze_swap_def ResourceAnalyzer_analyze_file_system_def
  ResourceAnalyzer_analyze_processes_def check_resource_process_def check_large_file_def
  SecurityAnalyzer_analyze_ports_def check_port_def vulnerable_service_of_def vulnerable_ports_def
  SecurityAnalyzer_analyze_services_def check_service_def vulnerable_services_def
  SecurityAnalyzer_analyze_updates_def SecurityAnalyzer_analyze_firewall_def
  SecurityAnalyzer_analyze_antivirus_def SecurityAnalyzer_analyze_ssl_def check_cert_def

lemmas analyzer_defs =
  PerformanceAnalyzer_analyze_def ResourceAnalyzer_analyze_def SecurityAnalyzer_analyze_def
  store_health_def PerformanceAnalyzer_calculate_health_def ResourceAnalyzer_calculate_health_def
  SecurityAnalyzer_calculate_security_score_def update_overall_status_def

lemma lower_telnet:
  "lower_char CHR ''T'' = CHR ''t''" "lower_char CHR ''e'' = CHR ''e''"
  "lower_char CHR ''l'' = CHR ''l''" "lower_char CHR ''n'' = CHR ''n''"
  "lower_char CHR ''t'' = CHR ''t''"
  by code_simp+

text \<open>
  C7. The score is not floored at 0. Three Critical and three Warning results give
  100 - 3 * 25 - 3 * 10 = -5 with status Critical, and the security analyzer produces
  exactly that on a snapshot with an SSH port, a Telnet service, pending updates, firewall
  and antivirus disabled and an expired certificate.
\<close>

theorem negative_security_score:
  "SecurityAnalyzer_calculate_security_score
     [(''ports'', \<lparr>status = Warning, issues = [[Lit ''p'']], details = []\<rparr>),
      (''services'', \<lparr>status = Warning, issues = [[Lit ''s'']], details = []\<rparr>),
      (''updates'', \<lparr>status = Warning, issues = [[Lit ''u'']], details = []\<rparr>),
      (''firewall'', \<lparr>status = Critical, issues = [[Lit ''f'']], details = []\<rparr>),
      (''antivirus'', \<lparr>status = Critical, issues = [[Lit ''a'']], details = []\<rparr>),
      (''ssl'', \<lparr>status = Critical, issues = [[Lit ''c'']], details = []\<rparr>)]
     = \<lparr>status = Critical,
        issues = [[Lit ''p''], [Lit ''s''], [Lit ''u''], [Lit ''f''], [Lit ''a''], [Lit ''c'']],
        score = - 5\<rparr>
   \<and> (\<exists>res. SecurityAnalyzer_analyze self
         (PDict [(''ports'', PList [PDict [(''port'', PInt 22), (''state'', PStr ''open'')]]),
                 (''services'', PList [PDict [(''name'', PStr ''Telnet''),
                                              (''status'', PStr ''running'')]]),
                 (''updates'', PDict [(''updates_available'', PInt 3)]),
                 (''firewall'', PDict [(''enabled'', PBool False)]),
                 (''antivirus'', PDict [(''enabled'', PBool False)]),
                 (''ssl'', PList [PDict [(''expired'', PBool True)]])]) = Inr res
       \<and> map_of res ''security_score''
           = Some (Health \<lparr>status = Critical,
               issues = [[Lit ''Found '', Val (PInt 1), Lit '' potentially vulnerable ports open''],
                         [Lit ''Found '', Val (PInt 1), Lit '' potentially vulnerable services running''],
                         [Lit ''System has '', Val (PInt 3), Lit '' updates available''],
                         [Lit ''Firewall is not enabled''], [Lit ''Antivirus is not enabled''],
                         [Lit ''Found '', Val (PInt 1), Lit '' expired SSL certificates'']],
               score = - 5\<rparr>))"
  by (simp add: analyzer_defs evaluator_defs lower_telnet)

section \<open>Properties of the evaluators\<close>

lemma py_ge_num: "num_of a = Some x \<Longrightarrow> num_of b = Some y \<Longrightarrow> py_ge a b = Inr (y \<le> x)"
  by (cases a; cases b) auto

lemma check_usage_num:
  assumes "num_of v = Some u" and "num_of (warning t) = Some w" and "num_of (critical t) = Some c"
  shows "check_usage label v t =
     Inr (if c \<le> u then (Critical, [[Lit (label @ '' usage is critically high: ''), Val v, Lit ''%'']])
          else if w \<le> u then (Warning, [[Lit (label @ '' usage is high: ''), Val v, Lit ''%'']])
          else (Normal, []))"
  by (simp add: check_usage_def bindE_def py_ge_num [OF assms(1,3)] py_ge_num [OF assms(1,2)])

text \<open>
  C1. For each of the six usage-percentage evaluators (CPU, memory and disk of the
  performance domain; disk, memory and swap of the resource domain), a metric record whose
  usage is the number \<open>u\<close>, and thresholds that are numbers \<open>w\<close> (warning) and
  \<open>c\<close> (critical) with \<open>w\<close> at most \<open>c\<close> in the evaluator's row: the evaluator returns a result whose status is Critical iff \<open>u\<close> is
  at least the critical threshold, Warning iff \<open>u\<close> is at least the warning threshold and
  below the critical one, and Normal iff \<open>u\<close> is below the warning threshold. Both
  comparisons include the boundary: usage equal to the critical threshold is Critical, usage
  equal to the warning threshold (and below the critical one) is Warning. There is one issue
  when the status is not Normal and none when it is.
\<close>

theorem usage_classification:
  assumes "(evaluate, name) \<in> set usage_evaluators"
    and "map_of metric ''usage'' = Some v" and "num_of v = Some u"
    and "num_of (warning (th name)) = Some w" and "num_of (critical (th name)) = Some c"
    and "w \<le> c"
  shows "\<exists>r. evaluate th (PDict metric) = Inr r
     \<and> (status r = Critical \<longleftrightarrow> c \<le> u)
     \<and> (status r = Warning \<longleftrightarrow> w \<le> u \<and> u < c)
     \<and> (status r = Normal \<longleftrightarrow> u < w)
     \<and> (u = c \<longrightarrow> status r = Critical)
     \<and> (u = w \<and> u < c \<longrightarrow> status r = Warning)
     \<and> length (issues r) = (if status r = Normal then 0 else 1)"
proof -
  from assms(1) have
    "evaluate = PerformanceAnalyzer_analyze_cpu \<and> name = ''cpu''
     \<or> evaluate = PerformanceAnalyzer_analyze_memory \<and> name = ''memory''
     \<or> evaluate = PerformanceAnalyzer_analyze_disk \<and> name = ''disk''
     \<or> evaluate = ResourceAnalyzer_analyze_disk \<and> name = ''disk''
     \<or> evaluate = ResourceAnalyzer_analyze_memory \<and> name = ''memory''
     \<or> evaluate = ResourceAnalyzer_analyze_swap \<and> name = ''swap''"
    unfolding usage_evaluators_def by simp
  then show ?thesis
  proof (elim disjE conjE)
    assume "evaluate = PerformanceAnalyzer_analyze_cpu" "name = ''cpu''"
    with assms(2-6) show ?thesis
      by (simp add: PerformanceAnalyzer_analyze_cpu_def bindE_def check_usage_num [where u = u and w = w and c = c])
  next
    assume "evaluate = PerformanceAnalyzer_analyze_memory" "name = ''memory''"
    with assms(2-6) show ?thesis
      by (simp add: PerformanceAnalyzer_analyze_memory_def bindE_def check_usage_num [where u = u and w = w and c = c])
  next
    assume "evaluate = PerformanceAnalyzer_analyze_disk" "name = ''disk''"
    with assms(2-6) show ?thesis
      by (simp add: PerformanceAnalyzer_analyze_disk_def bindE_def check_usage_num [where u = u and w = w and c = c])
  next
    assume "evaluate = ResourceAnalyzer_analyze_disk" "name = ''disk''"
    with assms(2-6) show ?thesis
      by (simp add: ResourceAnalyzer_analyze_disk_def bindE_def check_usage_num [where u = u and w = w and c = c])
  next
    assume "evaluate = ResourceAnalyzer_analyze_memory" "name = ''memory''"
    with assms(2-6) show ?thesis
      by (simp add: ResourceAnalyzer_analyze_memory_def bindE_def check_usage_num [where u = u and w = w and c = c])
  next
    assume "evaluate = ResourceAnalyzer_analyze_swap" "name = ''swap''"
    with assms(2-6) show ?thesis
      by (simp add: ResourceAnalyzer_analyze_swap_def bindE_def check_usage_num [where u = u and w = w and c = c])
  qed
qed

theorem usage_classification_witness:
  "\<exists>r. PerformanceAnalyzer_analyze_cpu default_performance_thresholds (PDict [(''usage'', PFloat 80)]) = Inr r
     \<and> status r = Warning \<and> length (issues r) = 1"
proof -
  have h1: "(PerformanceAnalyzer_analyze_cpu, ''cpu'') \<in> set usage_evaluators"
    by (simp add: usage_evaluators_def)
  have h2: "map_of [(''usage'', PFloat 80)] ''usage'' = Some (PFloat 80)"
    by simp
  have h3: "num_of (PFloat 80) = Some 80"
    by simp
  have h4: "num_of (warning (default_performance_thresholds ''cpu'')) = Some 80"
    by (simp add: default_performance_thresholds_def)
  have h5: "num_of (critical (default_performance_thresholds ''cpu'')) = Some 90"
    by (simp add: default_performance_thresholds_def)
  have h6: "(80 :: rat) \<le> 90"
    by simp
  from usage_classification [where th = default_performance_thresholds, OF h1 h2 h3 h4 h5 h6]
  show ?thesis
    by auto
qed

lemma vulnerable_port_iff:
  "(map_of vulnerable_ports n = None) \<longleftrightarrow> n \<notin> {21, 22, 23, 25, 3389}"
  by (simp add: vulnerable_ports_def)

lemma check_port_record:
  "check_port (port_record p) acc =
     Inr (if fst p \<in> {21, 22, 23, 25, 3389} then acc @ [flagged_port p] else acc)"
proof (cases "map_of vulnerable_ports (fst p)")
  case None
  then show ?thesis
    using vulnerable_port_iff [of "fst p"]
    by (simp add: check_port_def port_record_def bindE_def vulnerable_service_of_def)
next
  case (Some s)
  then show ?thesis
    using vulnerable_port_iff [of "fst p"]
    by (simp add: check_port_def port_record_def flagged_port_def bindE_def vulnerable_service_of_def)
qed

lemma for_each_check_port:
  "for_each check_port (map port_record ps) acc =
     Inr (acc @ map flagged_port (filter (\<lambda>p. fst p \<in> {21, 22, 23, 25, 3389}) ps))"
  by (induction ps arbitrary: acc) (simp_all add: check_port_record)

text \<open>
  C5, as the code has it. The ports evaluator never reads the state of a port: it flags
  exactly the supplied ports whose number is one of 21, 22, 23, 25, 3389, whatever their
  state, and the status is Warning when at least one port is flagged and Normal otherwise.
  In particular for \<open>[{port: 22, state: open}, {port: 8080, state: open}]\<close> only port 22 is
  flagged and the status is Warning.
\<close>

theorem ports_flagged:
  "\<exists>r. SecurityAnalyzer_analyze_ports (PList (map port_record ps)) = Inr r
     \<and> map_of (details r) ''open''
         = Some (PList (map flagged_port (filter (\<lambda>p. fst p \<in> {21, 22, 23, 25, 3389}) ps)))
     \<and> status r = (if \<exists>p \<in> set ps. fst p \<in> {21, 22, 23, 25, 3389} then Warning else Normal)"
  by (simp add: SecurityAnalyzer_analyze_ports_def bindE_def for_each_check_port filter_empty_conv)

theorem ports_flagged_witness:
  "\<exists>r. SecurityAnalyzer_analyze_ports
          (PList [PDict [(''port'', PInt 22), (''state'', PStr ''open'')],
                  PDict [(''port'', PInt 8080), (''state'', PStr ''open'')]]) = Inr r
     \<and> map_of (details r) ''open''
         = Some (PList [PDict [(''port'', PInt 22), (''service'', PStr ''SSH''), (''state'', PStr ''open'')]])
     \<and> status r = Warning"
  using ports_flagged [of "[(22, ''open''), (8080, ''open'')]"]
  by (simp add: port_record_def flagged_port_def vulnerable_ports_def)

text \<open>
  C5 as stated fails: a supplied port 22 whose state is \<^verbatim>\<open>'closed'\<close> is not open, yet
  it is flagged and the status is Warning.
\<close>

theorem closed_port_flagged_counterexample:
  "SecurityAnalyzer_analyze_ports (PList [PDict [(''port'', PInt 22), (''state'', PStr ''closed'')]])
     = Inr \<lparr>status = Warning,
            issues = [[Lit ''Found '', Val (PInt 1), Lit '' potentially vulnerable ports open'']],
            details = [(''total'', PInt 1),
                       (''open'', PList [PDict [(''port'', PInt 22), (''service'', PStr ''SSH''),
                                               (''state'', PStr ''closed'')]])]\<rparr>"
  by (simp add: SecurityAnalyzer_analyze_ports_def check_port_def bindE_def
        vulnerable_service_of_def vulnerable_ports_def)

lemma check_cert_dict:
  "check_cert (PDict c) (e, s) =
     Inr (if truthy (case map_of c ''expired'' of None \<Rightarrow> PBool False | Some v \<Rightarrow> v)
          then (e @ [PDict c], s)
          else if truthy (case map_of c ''expiring_soon'' of None \<Rightarrow> PBool False | Some v \<Rightarrow> v)
          then (e, s @ [PDict c]) else (e, s))"
  by (simp add: check_cert_def bindE_def)

lemma truthy_bool_flag:
  "bool_flag k c \<Longrightarrow>
   truthy (case map_of c k of None \<Rightarrow> PBool False | Some v \<Rightarrow> v) = has_flag k c"
  by (auto simp: bool_flag_def has_flag_def split: option.splits pyval.splits)

lemma check_cert_flags:
  "bool_flag ''expired'' c \<Longrightarrow> bool_flag ''expiring_soon'' c \<Longrightarrow>
   check_cert (PDict c) (e, s) =
     Inr (if has_flag ''expired'' c then (e @ [PDict c], s)
          else if has_flag ''expiring_soon'' c then (e, s @ [PDict c]) else (e, s))"
  by (simp only: check_cert_dict truthy_bool_flag)

lemma for_each_check_cert:
  "\<forall>c \<in> set certs. bool_flag ''expired'' c \<and> bool_flag ''expiring_soon'' c \<Longrightarrow>
   for_each check_cert (map PDict certs) (e, s) =
     Inr (e @ map PDict (filter (has_flag ''expired'') certs),
          s @ map PDict (filter (\<lambda>c. \<not> has_flag ''expired'' c \<and> has_flag ''expiring_soon'' c) certs))"
  by (induction certs arbitrary: e s) (simp_all add: check_cert_flags)

text \<open>
  C9. For supplied certificate records whose \<^verbatim>\<open>expired\<close> and \<^verbatim>\<open>expiring_soon\<close>
  flags, where present, are Booleans: the SSL evaluator returns Critical if some certificate
  has \<^verbatim>\<open>expired\<close> true, whatever the other certificates say; otherwise Warning if some
  certificate has \<^verbatim>\<open>expiring_soon\<close> true; otherwise Normal. In particular
  \<open>[{expired: true}, {expiring_soon: true}]\<close> yields Critical.
\<close>

theorem ssl_status:
  assumes "\<forall>c \<in> set certs. bool_flag ''expired'' c \<and> bool_flag ''expiring_soon'' c"
  shows "\<exists>r. SecurityAnalyzer_analyze_ssl (PList (map PDict certs)) = Inr r
     \<and> status r = (if \<exists>c \<in> set certs. has_flag ''expired'' c then Critical
                   else if \<exists>c \<in> set certs. has_flag ''expiring_soon'' c then Warning
                   else Normal)"
  using assms
  by (auto simp: SecurityAnalyzer_analyze_ssl_def bindE_def for_each_check_cert filter_empty_conv)

theorem ssl_status_witness:
  "\<exists>r. SecurityAnalyzer_analyze_ssl
          (PList [PDict [(''expired'', PBool True)], PDict [(''expiring_soon'', PBool True)]]) = Inr r
     \<and> status r = Critical"
proof -
  have flags:
    "\<forall>c \<in> set [[(''expired'', PBool True)], [(''expiring_soon'', PBool True)]].
       bool_flag ''expired'' c \<and> bool_flag ''expiring_soon'' c"
    by (simp add: bool_flag_def)
  from ssl_status [OF flags] show ?thesis
    by (simp add: has_flag_def)
qed

section \<open>Properties of the security configuration\<close>

lemma set_check_all_true: "\<forall>kv \<in> set cs. snd kv \<Longrightarrow> set_check name cs = cs"
  by (induction cs) (auto simp: set_check_def)

lemma enable_check_all_true:
  "\<forall>kv \<in> set cs. snd kv \<Longrightarrow> enable_check c cs = Inr cs' \<Longrightarrow> cs' = cs"
  by (cases c) (auto simp: set_check_all_true split: if_splits)

lemma for_each_enable_check:
  "\<forall>kv \<in> set cs. snd kv \<Longrightarrow> for_each enable_check xs cs = Inr cs' \<Longrightarrow> cs' = cs"
proof (induction xs)
  case Nil
  then show ?case by simp
next
  case (Cons x xs)
  from Cons.prems(2) obtain cs1 where 1: "enable_check x cs = Inr cs1"
    and 2: "for_each enable_check xs cs1 = Inr cs'"
    by (auto split: sum.splits)
  from enable_check_all_true [OF Cons.prems(1) 1] have "cs1 = cs" .
  with Cons.IH [OF Cons.prems(1)] 2 show ?case by simp
qed

lemma default_checks_all_true: "\<forall>kv \<in> set default_checks. snd kv"
  by (simp add: default_checks_def)

lemma load_security_checks_default:
  "SecurityAnalyzer_load_security_checks cfg = Inr cs \<Longrightarrow> cs = default_checks"
  unfolding SecurityAnalyzer_load_security_checks_def bindE_def
  by (auto split: sum.splits if_splits dest: for_each_enable_check [OF default_checks_all_true])

lemma security_result_keys:
  "SecurityAnalyzer_analyze self m = Inr res \<Longrightarrow>
   map fst res = [''ports'', ''services'', ''updates'', ''firewall'', ''antivirus'', ''ssl'', ''security_score'']"
  unfolding SecurityAnalyzer_analyze_def bindE_def store_health_def Let_def
  by (auto split: sum.splits)

lemma bindE_Inr: "bindE m f = Inr r \<longleftrightarrow> (\<exists>v. m = Inr v \<and> f v = Inr r)"
  by (cases m) (simp_all add: bindE_def)

lemma security_analyze_iff:
  "SecurityAnalyzer_analyze self m = Inr res \<longleftrightarrow>
     (\<exists>p s u f a c ports services updates firewall antivirus ssl.
        py_get m ''ports'' (PList []) = Inr p \<and> SecurityAnalyzer_analyze_ports p = Inr ports
      \<and> py_get m ''services'' (PList []) = Inr s \<and> SecurityAnalyzer_analyze_services s = Inr services
      \<and> py_get m ''updates'' (PDict []) = Inr u \<and> SecurityAnalyzer_analyze_updates u = Inr updates
      \<and> py_get m ''firewall'' (PDict []) = Inr f \<and> SecurityAnalyzer_analyze_firewall f = Inr firewall
      \<and> py_get m ''antivirus'' (PDict []) = Inr a \<and> SecurityAnalyzer_analyze_antivirus a = Inr antivirus
      \<and> py_get m ''ssl'' (PList []) = Inr c \<and> SecurityAnalyzer_analyze_ssl c = Inr ssl
      \<and> res = store_health
                 [(''ports'', ports), (''services'', services), (''updates'', updates),
                  (''firewall'', firewall), (''antivirus'', antivirus), (''ssl'', ssl)]
                 ''security_score''
                 (SecurityAnalyzer_calculate_security_score
                    [(''ports'', ports), (''services'', services), (''updates'', updates),
                     (''firewall'', firewall), (''antivirus'', antivirus), (''ssl'', ssl)]))"
  unfolding SecurityAnalyzer_analyze_def bindE_Inr Let_def
  by (simp only: sum.inject) blast

text \<open>
  C6. The security analyzer's result does not depend on the configured checks. Whatever the
  configuration, when \<^verbatim>\<open>_load_security_checks\<close> returns, \<^verbatim>\<open>self.checks\<close> is the initial
  table with all six checks enabled (a configured entry can only be set to \<^verbatim>\<open>True\<close>);
  \<^verbatim>\<open>analyze\<close> does not read \<^verbatim>\<open>self.checks\<close>, so analyzers built from any two
  configurations return the same result on every snapshot, as does an analyzer whose table is
  replaced by any other. All six evaluators run whatever the table says: \<^verbatim>\<open>analyze\<close>
  returns a result exactly when each of the six evaluators returns one on its sub-record of
  the snapshot (the default when the key is missing), and the result then holds, under the
  six category names, those six results, followed by their aggregate under
  \<^verbatim>\<open>'security_score'\<close>.
\<close>

theorem security_checks_irrelevant:
  assumes "SecurityAnalyzer_init cfg1 = Inr a1" and "SecurityAnalyzer_init cfg2 = Inr a2"
  shows "checks a1 = default_checks \<and> checks a2 = default_checks
     \<and> (\<forall>kv \<in> set (checks a1). snd kv)
     \<and> SecurityAnalyzer_analyze a1 m = SecurityAnalyzer_analyze a2 m
     \<and> SecurityAnalyzer_analyze (a1\<lparr>checks := cs\<rparr>) m = SecurityAnalyzer_analyze a1 m
     \<and> (\<forall>res. SecurityAnalyzer_analyze a1 m = Inr res \<longrightarrow>
           map fst res = [''ports'', ''services'', ''updates'', ''firewall'', ''antivirus'',
                          ''ssl'', ''security_score''])
     \<and> (\<forall>res. SecurityAnalyzer_analyze a1 m = Inr res \<longleftrightarrow>
           (\<exists>p s u f a c ports services updates firewall antivirus ssl.
              py_get m ''ports'' (PList []) = Inr p
            \<and> SecurityAnalyzer_analyze_ports p = Inr ports
            \<and> py_get m ''services'' (PList []) = Inr s
            \<and> SecurityAnalyzer_analyze_services s = Inr services
            \<and> py_get m ''updates'' (PDict []) = Inr u
            \<and> SecurityAnalyzer_analyze_updates u = Inr updates
            \<and> py_get m ''firewall'' (PDict []) = Inr f
            \<and> SecurityAnalyzer_analyze_firewall f = Inr firewall
            \<and> py_get m ''antivirus'' (PDict []) = Inr a
            \<and> SecurityAnalyzer_analyze_antivirus a = Inr antivirus
            \<and> py_get m ''ssl'' (PList []) = Inr c
            \<and> SecurityAnalyzer_analyze_ssl c = Inr ssl
            \<and> res = store_health
                       [(''ports'', ports), (''services'', services), (''updates'', updates),
                        (''firewall'', firewall), (''antivirus'', antivirus), (''ssl'', ssl)]
                       ''security_score''
                       (SecurityAnalyzer_calculate_security_score
                          [(''ports'', ports), (''services'', services), (''updates'', updates),
                           (''firewall'', firewall), (''antivirus'', antivirus), (''ssl'', ssl)])))"
proof -
  from assms have "checks a1 = default_checks" "checks a2 = default_checks"
    by (auto simp: SecurityAnalyzer_init_def bindE_def split: sum.splits
          dest: load_security_checks_default)
  moreover have "SecurityAnalyzer_analyze a1 m = SecurityAnalyzer_analyze a2 m"
    "SecurityAnalyzer_analyze (a1\<lparr>checks := cs\<rparr>) m = SecurityAnalyzer_analyze a1 m"
    by (simp_all add: SecurityAnalyzer_analyze_def)
  moreover have "\<forall>res. SecurityAnalyzer_analyze a1 m = Inr res \<longrightarrow>
           map fst res = [''ports'', ''services'', ''updates'', ''firewall'', ''antivirus'',
                          ''ssl'', ''security_score'']"
    by (simp add: security_result_keys)
  moreover have "\<forall>kv \<in> set default_checks. snd kv"
    by (rule default_checks_all_true)
  ultimately show ?thesis
    using security_analyze_iff [of a1 m] by (simp only: simp_thms)
qed

theorem security_checks_irrelevant_witness:
  "SecurityAnalyzer_init
      (PDict [(''analysis'', PDict [(''security'', PDict [(''checks'', PList [PStr ''open_ports''])])])])
    = Inr \<lparr>config_data = PDict [(''analysis'', PDict [(''security'',
                 PDict [(''checks'', PList [PStr ''open_ports''])])])],
           checks = default_checks\<rparr>
   \<and> SecurityAnalyzer_init
      (PDict [(''analysis'', PDict [(''security'',
                 PDict [(''checks'', PList [PStr ''firewall_status'', PStr ''other''])])])])
    = Inr \<lparr>config_data = PDict [(''analysis'', PDict [(''security'',
                 PDict [(''checks'', PList [PStr ''firewall_status'', PStr ''other''])])])],
           checks = default_checks\<rparr>
   \<and> SecurityAnalyzer_analyze
        \<lparr>config_data = PDict [(''analysis'', PDict [(''security'',
                 PDict [(''checks'', PList [PStr ''open_ports''])])])],
         checks = default_checks\<rparr>
        (PDict [(''firewall'', PDict [(''enabled'', PBool True)])])
     = SecurityAnalyzer_analyze
        \<lparr>config_data = PDict [(''analysis'', PDict [(''security'',
                 PDict [(''checks'', PList [PStr ''firewall_status'', PStr ''other''])])])],
         checks = default_checks\<rparr>
        (PDict [(''firewall'', PDict [(''enabled'', PBool True)])])"
proof -
  have h1: "SecurityAnalyzer_init
      (PDict [(''analysis'', PDict [(''security'', PDict [(''checks'', PList [PStr ''open_ports''])])])])
    = Inr \<lparr>config_data = PDict [(''analysis'', PDict [(''security'',
                 PDict [(''checks'', PList [PStr ''open_ports''])])])],
           checks = default_checks\<rparr>"
    by (simp add: SecurityAnalyzer_init_def SecurityAnalyzer_load_security_checks_def bindE_def
          default_checks_def set_check_def)
  have h2: "SecurityAnalyzer_init
      (PDict [(''analysis'', PDict [(''security'',
                 PDict [(''checks'', PList [PStr ''firewall_status'', PStr ''other''])])])])
    = Inr \<lparr>config_data = PDict [(''analysis'', PDict [(''security'',
                 PDict [(''checks'', PList [PStr ''firewall_status'', PStr ''other''])])])],
           checks = default_checks\<rparr>"
    by (simp add: SecurityAnalyzer_init_def SecurityAnalyzer_load_security_checks_def bindE_def
          default_checks_def set_check_def)
  from security_checks_irrelevant [OF h1 h2,
      where m = "PDict [(''firewall'', PDict [(''enabled'', PBool True)])]"] h1 h2
  show ?thesis by blast
qed

section \<open>Totality of the analyzers on snapshots of the expected shape\<close>

lemma field_ok_get:
  "field_ok P k d \<Longrightarrow> P dflt \<Longrightarrow> \<exists>v. py_get d k dflt = Inr v \<and> P v"
  by (cases d) (auto split: option.splits)

lemma check_usage_total:
  "is_number v \<Longrightarrow> is_number (warning t) \<Longrightarrow> is_number (critical t) \<Longrightarrow>
   \<exists>st iss. check_usage label v t = Inr (st, iss)"
  by (auto simp: is_number_def check_usage_num)

lemma for_each_total:
  "(\<And>x s. x \<in> set xs \<Longrightarrow> \<exists>s'. body x s = Inr s') \<Longrightarrow> \<exists>s'. for_each body xs s = Inr s'"
proof (induction xs arbitrary: s)
  case Nil
  then show ?case by simp
next
  case (Cons x xs)
  from Cons.prems [of x s] obtain s1 where "body x s = Inr s1" by auto
  moreover from Cons.IH [of s1] Cons.prems obtain s' where "for_each body xs s1 = Inr s'" by auto
  ultimately show ?case by simp
qed

lemma list_of_iter:
  "list_of P v \<Longrightarrow> \<exists>xs n. py_len v = Inr n \<and> py_iter v = Inr xs \<and> (\<forall>x \<in> set xs. P x)"
  by (cases v) (auto simp: list_all_iff)

lemma usage_value:
  assumes "usage_record d"
  shows "\<exists>kvs v. d = PDict kvs \<and> py_get d ''usage'' (PFloat 0) = Inr v \<and> is_number v"
proof -
  from assms obtain kvs where "d = PDict kvs" by (cases d) (auto simp: usage_record_def)
  moreover obtain v where "py_get d ''usage'' (PFloat 0) = Inr v" "is_number v"
    using assms field_ok_get [of is_number "''usage''" d "PFloat 0"]
    by (auto simp: usage_record_def is_number_def)
  ultimately show ?thesis by blast
qed

lemma performance_usage_total:
  assumes "usage_record d" and "numeric_thresholds th [''cpu'', ''memory'', ''disk'']"
  shows "\<exists>r. PerformanceAnalyzer_analyze_cpu th d = Inr r"
    and "\<exists>r. PerformanceAnalyzer_analyze_memory th d = Inr r"
    and "\<exists>r. PerformanceAnalyzer_analyze_disk th d = Inr r"
proof -
  from usage_value [OF assms(1)] obtain kvs v where
    d: "d = PDict kvs" and v: "py_get d ''usage'' (PFloat 0) = Inr v" "is_number v" by blast
  from assms(2) have n: "is_number (warning (th ''cpu''))" "is_number (critical (th ''cpu''))"
    "is_number (warning (th ''memory''))" "is_number (critical (th ''memory''))"
    "is_number (warning (th ''disk''))" "is_number (critical (th ''disk''))"
    by (simp_all add: numeric_thresholds_def)
  show "\<exists>r. PerformanceAnalyzer_analyze_cpu th d = Inr r"
    using v(1) check_usage_total [OF v(2) n(1,2), of "''CPU''"]
    by (auto simp: PerformanceAnalyzer_analyze_cpu_def bindE_def)
  show "\<exists>r. PerformanceAnalyzer_analyze_memory th d = Inr r"
    using v(1) check_usage_total [OF v(2) n(3,4), of "''Memory''"]
    by (auto simp: PerformanceAnalyzer_analyze_memory_def bindE_def d)
  show "\<exists>r. PerformanceAnalyzer_analyze_disk th d = Inr r"
    using v(1) check_usage_total [OF v(2) n(5,6), of "''Disk''"]
    by (auto simp: PerformanceAnalyzer_analyze_disk_def bindE_def d)
qed

lemma resource_usage_total:
  assumes "usage_record d" and "numeric_thresholds th [''disk'', ''memory'', ''swap'']"
  shows "\<exists>r. ResourceAnalyzer_analyze_disk th d = Inr r"
    and "\<exists>r. ResourceAnalyzer_analyze_memory th d = Inr r"
    and "\<exists>r. ResourceAnalyzer_analyze_swap th d = Inr r"
proof -
  from usage_value [OF assms(1)] obtain kvs v where
    d: "d = PDict kvs" and v: "py_get d ''usage'' (PFloat 0) = Inr v" "is_number v" by blast
  from assms(2) have n: "is_number (warning (th ''disk''))" "is_number (critical (th ''disk''))"
    "is_number (warning (th ''memory''))" "is_number (critical (th ''memory''))"
    "is_number (warning (th ''swap''))" "is_number (critical (th ''swap''))"
    by (simp_all add: numeric_thresholds_def)
  show "\<exists>r. ResourceAnalyzer_analyze_disk th d = Inr r"
    using v(1) check_usage_total [OF v(2) n(1,2), of "''Disk''"]
    by (auto simp: ResourceAnalyzer_analyze_disk_def bindE_def d)
  show "\<exists>r. ResourceAnalyzer_analyze_memory th d = Inr r"
    using v(1) check_usage_total [OF v(2) n(3,4), of "''Memory''"]
    by (auto simp: ResourceAnalyzer_analyze_memory_def bindE_def d)
  show "\<exists>r. ResourceAnalyzer_analyze_swap th d = Inr r"
    using v(1) check_usage_total [OF v(2) n(5,6), of "''Swap''"]
    by (auto simp: ResourceAnalyzer_analyze_swap_def bindE_def d)
qed

lemma network_total: "is_dict d \<Longrightarrow> \<exists>r. PerformanceAnalyzer_analyze_network d = Inr r"
  by (cases d) (auto simp: PerformanceAnalyzer_analyze_network_def bindE_def)

lemma process_entry_total: "is_dict p \<Longrightarrow> \<exists>e. process_entry p k = Inr e"
  by (cases p) (auto simp: process_entry_def bindE_def)

lemma check_process_total:
  assumes "process_record p"
  shows "\<exists>acc'. check_process p acc = Inr acc'"
proof -
  from assms obtain kvs where p: "p = PDict kvs" by (cases p) (auto simp: process_record_def)
  obtain c where c: "py_get p ''cpu_percent'' (PInt 0) = Inr c" "is_number c"
    using assms field_ok_get [of is_number "''cpu_percent''" p "PInt 0"]
    by (auto simp: process_record_def is_number_def)
  obtain m where m: "py_get p ''memory_percent'' (PInt 0) = Inr m" "is_number m"
    using assms field_ok_get [of is_number "''memory_percent''" p "PInt 0"]
    by (auto simp: process_record_def is_number_def)
  from c(2) obtain cb where cb: "py_gt c 50 = Inr cb"
    by (auto simp: is_number_def py_gt_def)
  from m(2) obtain mb where mb: "py_gt m 5 = Inr mb"
    by (auto simp: is_number_def py_gt_def)
  obtain e1 where e1: "process_entry p ''cpu_percent'' = Inr e1"
    using process_entry_total [of p] p by auto
  obtain e2 where e2: "process_entry p ''memory_percent'' = Inr e2"
    using process_entry_total [of p] p by auto
  show ?thesis
    by (cases acc) (simp add: check_process_def bindE_def c(1) m(1) cb mb e1 e2)
qed

lemma performance_processes_total:
  assumes "list_of process_record v"
  shows "\<exists>r. PerformanceAnalyzer_analyze_processes v = Inr r"
proof -
  from list_of_iter [OF assms] obtain xs n where
    1: "py_len v = Inr n" "py_iter v = Inr xs" "\<forall>x \<in> set xs. process_record x" by blast
  from for_each_total [of xs check_process "([], [])"] 1(3) check_process_total
  obtain acc where "for_each check_process xs ([], []) = Inr acc" by blast
  with 1 show ?thesis
    by (cases acc) (simp add: PerformanceAnalyzer_analyze_processes_def bindE_def)
qed

lemma check_resource_process_total:
  assumes "process_record p"
  shows "\<exists>acc'. check_resource_process p acc = Inr acc'"
proof -
  from assms obtain kvs where p: "p = PDict kvs" by (cases p) (auto simp: process_record_def)
  obtain high zombie where acc: "acc = (high, zombie)" by (cases acc)
  obtain high' where h: "check_process p high = Inr high'"
    using check_process_total [OF assms] by blast
  from h show ?thesis
    unfolding p by (simp add: check_resource_process_def bindE_def acc)
qed

lemma resource_processes_total:
  assumes "list_of process_record v"
  shows "\<exists>r. ResourceAnalyzer_analyze_processes v = Inr r"
proof -
  from list_of_iter [OF assms] obtain xs n where
    1: "py_len v = Inr n" "py_iter v = Inr xs" "\<forall>x \<in> set xs. process_record x" by blast
  from for_each_total [of xs check_resource_process "(([], []), [])"] 1(3) check_resource_process_total
  obtain acc where "for_each check_resource_process xs (([], []), []) = Inr acc" by blast
  moreover obtain hc hm z where "acc = ((hc, hm), z)" by (metis surj_pair)
  ultimately show ?thesis
    using 1 by (simp add: ResourceAnalyzer_analyze_processes_def bindE_def)
qed

lemma check_large_file_total:
  assumes "field_ok is_number ''size'' f"
  shows "\<exists>acc'. check_large_file f acc = Inr acc'"
proof -
  obtain v where v: "py_get f ''size'' (PInt 0) = Inr v" "is_number v"
    using assms field_ok_get [of is_number "''size''" f "PInt 0"] by (auto simp: is_number_def)
  from v(2) obtain b where "py_gt v (1024 * 1024 * 1024) = Inr b"
    by (auto simp: is_number_def py_gt_def)
  with v(1) show ?thesis by (simp add: check_large_file_def bindE_def)
qed

lemma file_system_total:
  assumes "field_ok (list_of (field_ok is_number ''size'')) ''largest_files'' d"
  shows "\<exists>r. ResourceAnalyzer_analyze_file_system d = Inr r"
proof -
  from assms obtain kvs where d: "d = PDict kvs" by (cases d) auto
  obtain lf where lf: "py_get d ''largest_files'' (PList []) = Inr lf"
      "list_of (field_ok is_number ''size'') lf"
    using assms field_ok_get [of "list_of (field_ok is_number ''size'')" "''largest_files''" d "PList []"]
    by auto
  from list_of_iter [OF lf(2)] obtain xs where
    xs: "py_iter lf = Inr xs" "\<forall>x \<in> set xs. field_ok is_number ''size'' x" by blast
  from for_each_total [of xs check_large_file "[]"] xs(2) check_large_file_total
  obtain large where "for_each check_large_file xs [] = Inr large" by blast
  with lf(1) xs(1) show ?thesis
    unfolding d by (simp add: ResourceAnalyzer_analyze_file_system_def bindE_def)
qed

lemma check_port_total:
  assumes "field_ok is_hashable ''port'' p"
  shows "\<exists>acc'. check_port p acc = Inr acc'"
proof -
  from assms obtain kvs where p: "p = PDict kvs" by (cases p) auto
  obtain v where v: "py_get p ''port'' PNone = Inr v" "is_hashable v"
    using assms field_ok_get [of is_hashable "''port''" p PNone] by auto
  from v(2) obtain key where "int_key v = Inr key" by (cases v) auto
  with v(1) show ?thesis
    unfolding p by (simp add: check_port_def bindE_def split: option.splits)
qed

lemma ports_total:
  assumes "list_of (field_ok is_hashable ''port'') v"
  shows "\<exists>r. SecurityAnalyzer_analyze_ports v = Inr r"
proof -
  from list_of_iter [OF assms] obtain xs n where
    1: "py_len v = Inr n" "py_iter v = Inr xs" "\<forall>x \<in> set xs. field_ok is_hashable ''port'' x"
    by blast
  from for_each_total [of xs check_port "[]"] 1(3) check_port_total
  obtain acc where "for_each check_port xs [] = Inr acc" by blast
  with 1 show ?thesis by (simp add: SecurityAnalyzer_analyze_ports_def bindE_def)
qed

lemma check_service_total:
  assumes "field_ok is_str ''name'' s"
  shows "\<exists>acc'. check_service s acc = Inr acc'"
proof -
  from assms obtain kvs where s: "s = PDict kvs" by (cases s) auto
  obtain v where v: "py_get s ''name'' (PStr []) = Inr v" "is_str v"
    using assms field_ok_get [of is_str "''name''" s "PStr []"] by auto
  from v(2) obtain name where "py_lower v = Inr name" by (cases v) auto
  with v(1) show ?thesis
    unfolding s by (simp add: check_service_def bindE_def)
qed

lemma services_total:
  assumes "list_of (field_ok is_str ''name'') v"
  shows "\<exists>r. SecurityAnalyzer_analyze_services v = Inr r"
proof -
  from list_of_iter [OF assms] obtain xs n where
    1: "py_len v = Inr n" "py_iter v = Inr xs" "\<forall>x \<in> set xs. field_ok is_str ''name'' x"
    by blast
  from for_each_total [of xs check_service "[]"] 1(3) check_service_total
  obtain acc where "for_each check_service xs [] = Inr acc" by blast
  with 1 show ?thesis by (simp add: SecurityAnalyzer_analyze_services_def bindE_def)
qed

lemma updates_total:
  assumes "field_ok is_number ''updates_available'' d"
  shows "\<exists>r. SecurityAnalyzer_analyze_updates d = Inr r"
proof -
  from assms obtain kvs where d: "d = PDict kvs" by (cases d) auto
  obtain v where v: "py_get d ''updates_available'' (PInt 0) = Inr v" "is_number v"
    using assms field_ok_get [of is_number "''updates_available''" d "PInt 0"]
    by (auto simp: is_number_def)
  from v(2) obtain b where "py_gt v 0 = Inr b" by (auto simp: is_number_def py_gt_def)
  with v(1) show ?thesis
    unfolding d by (simp add: SecurityAnalyzer_analyze_updates_def bindE_def)
qed

lemma firewall_total: "is_dict d \<Longrightarrow> \<exists>r. SecurityAnalyzer_analyze_firewall d = Inr r"
  by (cases d) (auto simp: SecurityAnalyzer_analyze_firewall_def bindE_def)

lemma antivirus_total: "is_dict d \<Longrightarrow> \<exists>r. SecurityAnalyzer_analyze_antivirus d = Inr r"
  by (cases d) (auto simp: SecurityAnalyzer_analyze_antivirus_def bindE_def)

lemma check_cert_total: "is_dict c \<Longrightarrow> \<exists>acc'. check_cert c acc = Inr acc'"
  by (cases c; cases acc) (auto simp: check_cert_def bindE_def)

lemma ssl_total:
  assumes "list_of is_dict v"
  shows "\<exists>r. SecurityAnalyzer_analyze_ssl v = Inr r"
proof -
  from list_of_iter [OF assms] obtain xs n where
    1: "py_len v = Inr n" "py_iter v = Inr xs" "\<forall>x \<in> set xs. is_dict x"
    by blast
  from for_each_total [of xs check_cert "([], [])"] 1(3) check_cert_total
  obtain acc where "for_each check_cert xs ([], []) = Inr acc" by blast
  with 1 show ?thesis
    by (cases acc) (simp add: SecurityAnalyzer_analyze_ssl_def bindE_def)
qed

lemma performance_total:
  assumes "performance_snapshot m" and th: "numeric_thresholds th [''cpu'', ''memory'', ''disk'']"
  shows "\<exists>res. PerformanceAnalyzer_analyze th m = Inr res
     \<and> map fst res = [''cpu'', ''memory'', ''disk'', ''network'', ''processes'', ''health'']"
proof -
  from assms(1) have f: "field_ok usage_record ''cpu'' m" "field_ok usage_record ''memory'' m"
    "field_ok usage_record ''disk'' m" "field_ok is_dict ''network'' m"
    "field_ok (list_of process_record) ''processes'' m"
    by (simp_all add: performance_snapshot_def)
  have e: "usage_record (PDict [])" "is_dict (PDict [])" "list_of process_record (PList [])"
    by (simp_all add: usage_record_def)
  from field_ok_get [OF f(1) e(1)] obtain v1 where
    v1: "py_get m ''cpu'' (PDict []) = Inr v1" "usage_record v1" by blast
  from field_ok_get [OF f(2) e(1)] obtain v2 where
    v2: "py_get m ''memory'' (PDict []) = Inr v2" "usage_record v2" by blast
  from field_ok_get [OF f(3) e(1)] obtain v3 where
    v3: "py_get m ''disk'' (PDict []) = Inr v3" "usage_record v3" by blast
  from field_ok_get [OF f(4) e(2)] obtain v4 where
    v4: "py_get m ''network'' (PDict []) = Inr v4" "is_dict v4" by blast
  from field_ok_get [OF f(5) e(3)] obtain v5 where
    v5: "py_get m ''processes'' (PList []) = Inr v5" "list_of process_record v5" by blast
  from performance_usage_total(1) [OF v1(2) th] obtain r1 where
    r1: "PerformanceAnalyzer_analyze_cpu th v1 = Inr r1" by blast
  from performance_usage_total(2) [OF v2(2) th] obtain r2 where
    r2: "PerformanceAnalyzer_analyze_memory th v2 = Inr r2" by blast
  from performance_usage_total(3) [OF v3(2) th] obtain r3 where
    r3: "PerformanceAnalyzer_analyze_disk th v3 = Inr r3" by blast
  from network_total [OF v4(2)] obtain r4 where
    r4: "PerformanceAnalyzer_analyze_network v4 = Inr r4" by blast
  from performance_processes_total [OF v5(2)] obtain r5 where
    r5: "PerformanceAnalyzer_analyze_processes v5 = Inr r5" by blast
  show ?thesis
    by (simp add: PerformanceAnalyzer_analyze_def bindE_def Let_def store_health_def
          v1(1) v2(1) v3(1) v4(1) v5(1) r1 r2 r3 r4 r5)
qed

lemma resource_total:
  assumes "resource_snapshot m" and th: "numeric_thresholds th [''disk'', ''memory'', ''swap'']"
  shows "\<exists>res. ResourceAnalyzer_analyze th m = Inr res
     \<and> map fst res = [''disk'', ''memory'', ''swap'', ''file_system'', ''processes'', ''health'']"
proof -
  from assms(1) have f: "field_ok usage_record ''disk'' m" "field_ok usage_record ''memory'' m"
    "field_ok usage_record ''swap'' m"
    "field_ok (field_ok (list_of (field_ok is_number ''size'')) ''largest_files'') ''file_system'' m"
    "field_ok (list_of process_record) ''processes'' m"
    by (simp_all add: resource_snapshot_def)
  have e: "usage_record (PDict [])"
    "field_ok (list_of (field_ok is_number ''size'')) ''largest_files'' (PDict [])"
    "list_of process_record (PList [])"
    by (simp_all add: usage_record_def)
  from field_ok_get [OF f(1) e(1)] obtain v1 where
    v1: "py_get m ''disk'' (PDict []) = Inr v1" "usage_record v1" by blast
  from field_ok_get [OF f(2) e(1)] obtain v2 where
    v2: "py_get m ''memory'' (PDict []) = Inr v2" "usage_record v2" by blast
  from field_ok_get [OF f(3) e(1)] obtain v3 where
    v3: "py_get m ''swap'' (PDict []) = Inr v3" "usage_record v3" by blast
  from field_ok_get [OF f(4) e(2)] obtain v4 where
    v4: "py_get m ''file_system'' (PDict []) = Inr v4"
        "field_ok (list_of (field_ok is_number ''size'')) ''largest_files'' v4" by blast
  from field_ok_get [OF f(5) e(3)] obtain v5 where
    v5: "py_get m ''processes'' (PList []) = Inr v5" "list_of process_record v5" by blast
  from resource_usage_total(1) [OF v1(2) th] obtain r1 where
    r1: "ResourceAnalyzer_analyze_disk th v1 = Inr r1" by blast
  from resource_usage_total(2) [OF v2(2) th] obtain r2 where
    r2: "ResourceAnalyzer_analyze_memory th v2 = Inr r2" by blast
  from resource_usage_total(3) [OF v3(2) th] obtain r3 where
    r3: "ResourceAnalyzer_analyze_swap th v3 = Inr r3" by blast
  from file_system_total [OF v4(2)] obtain r4 where
    r4: "ResourceAnalyzer_analyze_file_system v4 = Inr r4" by blast
  from resource_processes_total [OF v5(2)] obtain r5 where
    r5: "ResourceAnalyzer_analyze_processes v5 = Inr r5" by blast
  show ?thesis
    by (simp add: ResourceAnalyzer_analyze_def bindE_def Let_def store_health_def
          v1(1) v2(1) v3(1) v4(1) v5(1) r1 r2 r3 r4 r5)
qed

lemma security_total:
  assumes "security_snapshot m"
  shows "\<exists>res. SecurityAnalyzer_analyze self m = Inr res
     \<and> map fst res = [''ports'', ''services'', ''updates'', ''firewall'', ''antivirus'', ''ssl'',
                       ''security_score'']"
proof -
  from assms have f: "field_ok (list_of (field_ok is_hashable ''port'')) ''ports'' m"
    "field_ok (list_of (field_ok is_str ''name'')) ''services'' m"
    "field_ok (field_ok is_number ''updates_available'') ''updates'' m"
    "field_ok is_dict ''firewall'' m" "field_ok is_dict ''antivirus'' m"
    "field_ok (list_of is_dict) ''ssl'' m"
    by (simp_all add: security_snapshot_def)
  have e: "list_of (field_ok is_hashable ''port'') (PList [])"
    "list_of (field_ok is_str ''name'') (PList [])"
    "field_ok is_number ''updates_available'' (PDict [])"
    "is_dict (PDict [])" "list_of is_dict (PList [])"
    by simp_all
  from field_ok_get [OF f(1) e(1)] obtain v1 where
    v1: "py_get m ''ports'' (PList []) = Inr v1" "list_of (field_ok is_hashable ''port'') v1" by blast
  from field_ok_get [OF f(2) e(2)] obtain v2 where
    v2: "py_get m ''services'' (PList []) = Inr v2" "list_of (field_ok is_str ''name'') v2" by blast
  from field_ok_get [OF f(3) e(3)] obtain v3 where
    v3: "py_get m ''updates'' (PDict []) = Inr v3" "field_ok is_number ''updates_available'' v3" by blast
  from field_ok_get [OF f(4) e(4)] obtain v4 where
    v4: "py_get m ''firewall'' (PDict []) = Inr v4" "is_dict v4" by blast
  from field_ok_get [OF f(5) e(4)] obtain v5 where
    v5: "py_get m ''antivirus'' (PDict []) = Inr v5" "is_dict v5" by blast
  from field_ok_get [OF f(6) e(5)] obtain v6 where
    v6: "py_get m ''ssl'' (PList []) = Inr v6" "list_of is_dict v6" by blast
  from ports_total [OF v1(2)] obtain r1 where r1: "SecurityAnalyzer_analyze_ports v1 = Inr r1" by blast
  from services_total [OF v2(2)] obtain r2 where r2: "SecurityAnalyzer_analyze_services v2 = Inr r2" by blast
  from updates_total [OF v3(2)] obtain r3 where r3: "SecurityAnalyzer_analyze_updates v3 = Inr r3" by blast
  from firewall_total [OF v4(2)] obtain r4 where r4: "SecurityAnalyzer_analyze_firewall v4 = Inr r4" by blast
  from antivirus_total [OF v5(2)] obtain r5 where r5: "SecurityAnalyzer_analyze_antivirus v5 = Inr r5" by blast
  from ssl_total [OF v6(2)] obtain r6 where r6: "SecurityAnalyzer_analyze_ssl v6 = Inr r6" by blast
  show ?thesis
    by (simp add: SecurityAnalyzer_analyze_def bindE_def Let_def store_health_def
          v1(1) v2(1) v3(1) v4(1) v5(1) v6(1) r1 r2 r3 r4 r5 r6)
qed

section \<open>Defaults for missing categories and fields\<close>

lemma map_of_filter_key:
  "map_of (filter (\<lambda>kd. P (fst kd)) xs) k = (if P k then map_of xs k else None)"
  by (induction xs) auto

lemma map_of_with_defaults:
  "map_of (with_defaults ds r) k = (case map_of r k of None \<Rightarrow> map_of ds k | Some v \<Rightarrow> Some v)"
  by (simp add: with_defaults_def map_add_def map_of_filter_key [where P = "\<lambda>k. map_of r k = None"]
        split: option.splits)

lemma py_get_with_defaults:
  "map_of ds k = Some d \<Longrightarrow> py_get (PDict (with_defaults ds r)) k d = py_get (PDict r) k d"
  by (simp add: map_of_with_defaults split: option.splits)

lemma py_get_with_defaults_other:
  "map_of ds k = None \<Longrightarrow> py_get (PDict (with_defaults ds r)) k d = py_get (PDict r) k d"
  by (simp add: map_of_with_defaults split: option.splits)

lemma py_get_with_defaults_present:
  "map_of r k = Some v \<Longrightarrow> py_get (PDict (with_defaults ds r)) k d = Inr v"
  by (simp add: map_of_with_defaults)

lemma usage_defaults:
  "PerformanceAnalyzer_analyze_cpu th (PDict (with_defaults [(''usage'', PFloat 0)] r))
     = PerformanceAnalyzer_analyze_cpu th (PDict r)"
  "PerformanceAnalyzer_analyze_memory th
     (PDict (with_defaults [(''usage'', PFloat 0), (''available'', PInt 0), (''total'', PInt 0)] r))
     = PerformanceAnalyzer_analyze_memory th (PDict r)"
  "PerformanceAnalyzer_analyze_disk th
     (PDict (with_defaults [(''usage'', PFloat 0), (''free'', PInt 0), (''total'', PInt 0)] r))
     = PerformanceAnalyzer_analyze_disk th (PDict r)"
  "ResourceAnalyzer_analyze_disk th
     (PDict (with_defaults [(''usage'', PFloat 0), (''free'', PInt 0), (''total'', PInt 0)] r))
     = ResourceAnalyzer_analyze_disk th (PDict r)"
  "ResourceAnalyzer_analyze_memory th
     (PDict (with_defaults [(''usage'', PFloat 0), (''available'', PInt 0), (''total'', PInt 0)] r))
     = ResourceAnalyzer_analyze_memory th (PDict r)"
  "ResourceAnalyzer_analyze_swap th
     (PDict (with_defaults [(''usage'', PFloat 0), (''free'', PInt 0), (''total'', PInt 0)] r))
     = ResourceAnalyzer_analyze_swap th (PDict r)"
  by (simp_all add: PerformanceAnalyzer_analyze_cpu_def PerformanceAnalyzer_analyze_memory_def
        PerformanceAnalyzer_analyze_disk_def ResourceAnalyzer_analyze_disk_def
        ResourceAnalyzer_analyze_memory_def ResourceAnalyzer_analyze_swap_def
        map_of_with_defaults split: option.splits)

lemma record_defaults:
  "PerformanceAnalyzer_analyze_network
     (PDict (with_defaults [(''bytes_sent'', PInt 0), (''bytes_recv'', PInt 0),
                            (''packets_sent'', PInt 0), (''packets_recv'', PInt 0)] r))
     = PerformanceAnalyzer_analyze_network (PDict r)"
  "ResourceAnalyzer_analyze_file_system
     (PDict (with_defaults [(''total_files'', PInt 0), (''total_dirs'', PInt 0),
                            (''largest_files'', PList [])] r))
     = ResourceAnalyzer_analyze_file_system (PDict r)"
  "SecurityAnalyzer_analyze_updates
     (PDict (with_defaults [(''last_update'', PStr ''unknown''), (''updates_available'', PInt 0)] r))
     = SecurityAnalyzer_analyze_updates (PDict r)"
  "SecurityAnalyzer_analyze_firewall
     (PDict (with_defaults [(''enabled'', PBool False), (''rules'', PList [])] r))
     = SecurityAnalyzer_analyze_firewall (PDict r)"
  "SecurityAnalyzer_analyze_antivirus
     (PDict (with_defaults [(''enabled'', PBool False), (''last_scan'', PStr ''unknown'')] r))
     = SecurityAnalyzer_analyze_antivirus (PDict r)"
  by (simp_all add: PerformanceAnalyzer_analyze_network_def ResourceAnalyzer_analyze_file_system_def
        SecurityAnalyzer_analyze_updates_def SecurityAnalyzer_analyze_firewall_def
        SecurityAnalyzer_analyze_antivirus_def map_of_with_defaults split: option.splits)

lemma element_defaults:
  "check_port (PDict (with_defaults [(''port'', PNone), (''state'', PStr ''unknown'')] r)) acc
     = check_port (PDict r) acc"
  "check_service (PDict (with_defaults [(''name'', PStr []), (''status'', PStr ''unknown'')] r)) acc
     = check_service (PDict r) acc"
proof -
  have p1: "py_get (PDict (with_defaults [(''port'', PNone), (''state'', PStr ''unknown'')] r))
              ''port'' PNone = py_get (PDict r) ''port'' PNone"
    by (rule py_get_with_defaults) simp
  have p2: "py_get (PDict (with_defaults [(''port'', PNone), (''state'', PStr ''unknown'')] r))
              ''state'' (PStr ''unknown'') = py_get (PDict r) ''state'' (PStr ''unknown'')"
    by (rule py_get_with_defaults) simp
  have s1: "py_get (PDict (with_defaults [(''name'', PStr []), (''status'', PStr ''unknown'')] r))
              ''name'' (PStr []) = py_get (PDict r) ''name'' (PStr [])"
    by (rule py_get_with_defaults) simp
  have s2: "py_get (PDict (with_defaults [(''name'', PStr []), (''status'', PStr ''unknown'')] r))
              ''status'' (PStr ''unknown'') = py_get (PDict r) ''status'' (PStr ''unknown'')"
    by (rule py_get_with_defaults) simp
  show "check_port (PDict (with_defaults [(''port'', PNone), (''state'', PStr ''unknown'')] r)) acc
     = check_port (PDict r) acc"
    unfolding check_port_def p1 p2 by (rule refl)
  show "check_service (PDict (with_defaults [(''name'', PStr []), (''status'', PStr ''unknown'')] r)) acc
     = check_service (PDict r) acc"
    unfolding check_service_def s1 s2 by (rule refl)
qed

lemma check_process_defaults:
  "check_process (PDict (with_defaults process_defaults r)) acc = check_process (PDict r) acc"
  by (cases acc; cases "map_of r ''cpu_percent''"; cases "map_of r ''memory_percent''")
     (simp_all add: check_process_def process_entry_def process_defaults_def bindE_def py_gt_def
        map_of_with_defaults split: option.splits)

lemma check_resource_process_defaults:
  "check_resource_process (PDict (with_defaults process_defaults r)) acc
     = check_resource_process (PDict r) acc"
  by (cases acc)
     (simp add: check_resource_process_def check_process_defaults,
      simp add: process_defaults_def map_of_with_defaults bindE_def split: option.splits sum.splits)

lemma record_evaluators_defaults:
  "\<forall>ed \<in> set (record_evaluators th th').
     fst ed (PDict r) = fst ed (PDict (with_defaults (snd ed) r))"
  unfolding record_evaluators_def by (simp add: usage_defaults record_defaults)

lemma element_checks_defaults:
  "\<forall>cd \<in> set element_checks. fst cd (PDict r) acc = fst cd (PDict (with_defaults (snd cd) r)) acc"
  unfolding element_checks_def by (simp add: element_defaults)

lemma analyze_defaults:
  "PerformanceAnalyzer_analyze th (PDict (with_defaults performance_categories kvs))
     = PerformanceAnalyzer_analyze th (PDict kvs)"
  "SecurityAnalyzer_analyze self (PDict (with_defaults security_categories kvs))
     = SecurityAnalyzer_analyze self (PDict kvs)"
  "ResourceAnalyzer_analyze th (PDict (with_defaults resource_categories kvs))
     = ResourceAnalyzer_analyze th (PDict kvs)"
  by (simp_all add: PerformanceAnalyzer_analyze_def SecurityAnalyzer_analyze_def
        ResourceAnalyzer_analyze_def performance_categories_def security_categories_def
        resource_categories_def map_of_with_defaults split: option.splits)

lemma check_cert_sub:
  "check_cert (PDict r) (e, s) =
     Inr (if truthy (sub_record r ''expired'' (PBool False)) then (e @ [PDict r], s)
          else if truthy (sub_record r ''expiring_soon'' (PBool False)) then (e, s @ [PDict r])
          else (e, s))"
  by (simp add: check_cert_def bindE_def sub_record_def)

lemma check_large_file_sub:
  "check_large_file (PDict r) acc =
     bindE (py_gt (sub_record r ''size'' (PInt 0)) (1024 * 1024 * 1024))
       (\<lambda>is_large. Inr (if is_large then acc @ [PDict r] else acc))"
  by (simp add: check_large_file_def bindE_def sub_record_def)


text \<open>
  The default tables hold numbers, and a configuration without overrides leaves them as
  they are. A configuration can put any value into the table: with \<^verbatim>\<open>critical: '90%'\<close>
  for the CPU the table is loaded, and \<^verbatim>\<open>analyze\<close> then raises \<^verbatim>\<open>TypeError\<close> on the
  empty snapshot, at \<^verbatim>\<open>0.0 >= '90%'\<close>.
\<close>

lemma default_thresholds_numeric:
  "numeric_thresholds default_performance_thresholds [''cpu'', ''memory'', ''disk'']"
  "numeric_thresholds default_resource_thresholds [''disk'', ''memory'', ''swap'']"
  by (simp_all add: numeric_thresholds_def is_number_def default_performance_thresholds_def
        default_resource_thresholds_def)

lemma load_thresholds_no_overrides:
  "PerformanceAnalyzer_load_thresholds (PDict []) = Inr default_performance_thresholds"
  "ResourceAnalyzer_load_thresholds (PDict []) = Inr default_resource_thresholds"
  by (simp_all add: PerformanceAnalyzer_load_thresholds_def ResourceAnalyzer_load_thresholds_def
        load_thresholds_def bindE_def)

lemma string_threshold_raises:
  "\<exists>th. PerformanceAnalyzer_load_thresholds
          (PDict [(''analysis'', PDict [(''performance'', PDict [(''thresholds'',
             PDict [(''cpu'', PDict [(''critical'', PStr ''90%'')])])])])]) = Inr th
     \<and> th ''cpu'' = \<lparr>warning = PFloat 80, critical = PStr ''90%''\<rparr>
     \<and> PerformanceAnalyzer_analyze th (PDict []) = Inl TypeError"
  by (simp add: PerformanceAnalyzer_load_thresholds_def load_thresholds_def override_threshold_def
        default_performance_thresholds_def bindE_def PerformanceAnalyzer_analyze_def
        PerformanceAnalyzer_analyze_cpu_def check_usage_def)

lemmas snapshot_defs =
  performance_snapshot_def security_snapshot_def resource_snapshot_def usage_record_def
  process_record_def is_number_def numeric_thresholds_def

text \<open>
  C8, as the code has it. For an analyzer whose threshold table holds numbers, on a snapshot
  that is a mapping in which every category that is present has the shape its evaluator
  reads (and every field that is present the type it is compared or iterated as),
  \<^verbatim>\<open>analyze\<close> of each domain analyzer returns and does not raise, and the result has
  every category of the domain. No category key and no field is required, and a missing one
  is replaced by its default: \<^verbatim>\<open>analyze\<close> returns on a snapshot what it returns on the
  snapshot completed with the empty mapping or list for each missing category; each
  evaluator of a mapping, and each loop body reading a port, a service or a process,
  returns on a record what it returns on the record completed with the default of each
  missing field; and a certificate and a file are tested on their flags, default
  \<^verbatim>\<open>False\<close>, and on their size, default 0.
\<close>

theorem analyze_total:
  "(performance_snapshot m \<and> numeric_thresholds th [''cpu'', ''memory'', ''disk''] \<longrightarrow>
      (\<exists>res. PerformanceAnalyzer_analyze th m = Inr res
         \<and> map fst res = [''cpu'', ''memory'', ''disk'', ''network'', ''processes'', ''health'']))
   \<and> (security_snapshot m \<longrightarrow>
      (\<exists>res. SecurityAnalyzer_analyze self m = Inr res
         \<and> map fst res = [''ports'', ''services'', ''updates'', ''firewall'', ''antivirus'', ''ssl'',
                           ''security_score'']))
   \<and> (resource_snapshot m \<and> numeric_thresholds th' [''disk'', ''memory'', ''swap''] \<longrightarrow>
      (\<exists>res. ResourceAnalyzer_analyze th' m = Inr res
         \<and> map fst res = [''disk'', ''memory'', ''swap'', ''file_system'', ''processes'', ''health'']))
   \<and> PerformanceAnalyzer_analyze th (PDict kvs)
       = PerformanceAnalyzer_analyze th (PDict (with_defaults performance_categories kvs))
   \<and> SecurityAnalyzer_analyze self (PDict kvs)
       = SecurityAnalyzer_analyze self (PDict (with_defaults security_categories kvs))
   \<and> ResourceAnalyzer_analyze th' (PDict kvs)
       = ResourceAnalyzer_analyze th' (PDict (with_defaults resource_categories kvs))
   \<and> (\<forall>ed \<in> set (record_evaluators th th').
         fst ed (PDict r) = fst ed (PDict (with_defaults (snd ed) r)))
   \<and> (\<forall>cd \<in> set element_checks.
         fst cd (PDict r) flagged = fst cd (PDict (with_defaults (snd cd) r)) flagged)
   \<and> check_process (PDict r) high = check_process (PDict (with_defaults process_defaults r)) high
   \<and> check_resource_process (PDict r) high_zombie
       = check_resource_process (PDict (with_defaults process_defaults r)) high_zombie
   \<and> check_cert (PDict r) (expired, expiring_soon)
       = Inr (if truthy (sub_record r ''expired'' (PBool False))
              then (expired @ [PDict r], expiring_soon)
              else if truthy (sub_record r ''expiring_soon'' (PBool False))
              then (expired, expiring_soon @ [PDict r])
              else (expired, expiring_soon))
   \<and> check_large_file (PDict r) large_files
       = bindE (py_gt (sub_record r ''size'' (PInt 0)) (1024 * 1024 * 1024))
           (\<lambda>is_large. Inr (if is_large then large_files @ [PDict r] else large_files))"
proof (intro conjI impI)
  assume "performance_snapshot m \<and> numeric_thresholds th [''cpu'', ''memory'', ''disk'']"
  then show "\<exists>res. PerformanceAnalyzer_analyze th m = Inr res
         \<and> map fst res = [''cpu'', ''memory'', ''disk'', ''network'', ''processes'', ''health'']"
    using performance_total [of m th] by blast
next
  assume "security_snapshot m"
  then show "\<exists>res. SecurityAnalyzer_analyze self m = Inr res
         \<and> map fst res = [''ports'', ''services'', ''updates'', ''firewall'', ''antivirus'', ''ssl'',
                           ''security_score'']"
    by (rule security_total)
next
  assume "resource_snapshot m \<and> numeric_thresholds th' [''disk'', ''memory'', ''swap'']"
  then show "\<exists>res. ResourceAnalyzer_analyze th' m = Inr res
         \<and> map fst res = [''disk'', ''memory'', ''swap'', ''file_system'', ''processes'', ''health'']"
    using resource_total [of m th'] by blast
qed (rule analyze_defaults [symmetric] record_evaluators_defaults element_checks_defaults
       check_process_defaults [symmetric] check_resource_process_defaults [symmetric]
       check_cert_sub check_large_file_sub)+


theorem analyze_total_witness:
  "performance_snapshot
     (PDict [(''cpu'', PDict [(''usage'', PFloat 95)]),
             (''processes'', PList [PDict [(''pid'', PInt 1), (''cpu_percent'', PInt 2)]]),
             (''firewall'', PDict [(''enabled'', PBool True)])])
   \<and> security_snapshot
     (PDict [(''cpu'', PDict [(''usage'', PFloat 95)]),
             (''processes'', PList [PDict [(''pid'', PInt 1), (''cpu_percent'', PInt 2)]]),
             (''firewall'', PDict [(''enabled'', PBool True)])])
   \<and> resource_snapshot
     (PDict [(''cpu'', PDict [(''usage'', PFloat 95)]),
             (''processes'', PList [PDict [(''pid'', PInt 1), (''cpu_percent'', PInt 2)]]),
             (''firewall'', PDict [(''enabled'', PBool True)])])
   \<and> numeric_thresholds default_performance_thresholds [''cpu'', ''memory'', ''disk'']
   \<and> numeric_thresholds default_resource_thresholds [''disk'', ''memory'', ''swap'']
   \<and> (\<exists>res. PerformanceAnalyzer_analyze default_performance_thresholds
          (PDict [(''cpu'', PDict [(''usage'', PFloat 95)]),
                  (''processes'', PList [PDict [(''pid'', PInt 1), (''cpu_percent'', PInt 2)]]),
                  (''firewall'', PDict [(''enabled'', PBool True)])]) = Inr res
         \<and> map fst res = [''cpu'', ''memory'', ''disk'', ''network'', ''processes'', ''health''])
   \<and> (\<exists>res. SecurityAnalyzer_analyze \<lparr>config_data = PDict [], checks = default_checks\<rparr>
          (PDict [(''cpu'', PDict [(''usage'', PFloat 95)]),
                  (''processes'', PList [PDict [(''pid'', PInt 1), (''cpu_percent'', PInt 2)]]),
                  (''firewall'', PDict [(''enabled'', PBool True)])]) = Inr res
         \<and> map fst res = [''ports'', ''services'', ''updates'', ''firewall'', ''antivirus'', ''ssl'',
                           ''security_score''])
   \<and> (\<exists>res. ResourceAnalyzer_analyze default_resource_thresholds
          (PDict [(''cpu'', PDict [(''usage'', PFloat 95)]),
                  (''processes'', PList [PDict [(''pid'', PInt 1), (''cpu_percent'', PInt 2)]]),
                  (''firewall'', PDict [(''enabled'', PBool True)])]) = Inr res
         \<and> map fst res = [''disk'', ''memory'', ''swap'', ''file_system'', ''processes'', ''health''])
   \<and> PerformanceAnalyzer_analyze default_performance_thresholds
        (PDict [(''cpu'', PDict [(''usage'', PFloat 95)]),
                (''processes'', PList [PDict [(''pid'', PInt 1), (''cpu_percent'', PInt 2)]]),
                (''firewall'', PDict [(''enabled'', PBool True)])])
     = PerformanceAnalyzer_analyze default_performance_thresholds
        (PDict [(''cpu'', PDict [(''usage'', PFloat 95)]),
                (''processes'', PList [PDict [(''pid'', PInt 1), (''cpu_percent'', PInt 2)]]),
                (''firewall'', PDict [(''enabled'', PBool True)]),
                (''memory'', PDict []), (''disk'', PDict []), (''network'', PDict [])])"
proof -
  let ?kvs = "[(''cpu'', PDict [(''usage'', PFloat 95)]),
               (''processes'', PList [PDict [(''pid'', PInt 1), (''cpu_percent'', PInt 2)]]),
               (''firewall'', PDict [(''enabled'', PBool True)])]"
  have h: "performance_snapshot (PDict ?kvs)" "security_snapshot (PDict ?kvs)"
    "resource_snapshot (PDict ?kvs)"
    by (simp_all add: snapshot_defs)
  have n: "numeric_thresholds default_performance_thresholds [''cpu'', ''memory'', ''disk'']"
    "numeric_thresholds default_resource_thresholds [''disk'', ''memory'', ''swap'']"
    by (simp_all add: snapshot_defs default_performance_thresholds_def
          default_resource_thresholds_def)
  have w: "with_defaults performance_categories ?kvs
             = ?kvs @ [(''memory'', PDict []), (''disk'', PDict []), (''network'', PDict [])]"
    by (simp add: with_defaults_def performance_categories_def)
  note t = analyze_total [where m = "PDict ?kvs" and kvs = ?kvs
      and th = default_performance_thresholds
      and self = "\<lparr>config_data = PDict [], checks = default_checks\<rparr>"
      and th' = default_resource_thresholds]
  from t [THEN conjunct1] h(1) n(1)
  have p: "\<exists>res. PerformanceAnalyzer_analyze default_performance_thresholds (PDict ?kvs) = Inr res
         \<and> map fst res = [''cpu'', ''memory'', ''disk'', ''network'', ''processes'', ''health'']"
    by blast
  from t [THEN conjunct2, THEN conjunct1] h(2)
  have s: "\<exists>res. SecurityAnalyzer_analyze \<lparr>config_data = PDict [], checks = default_checks\<rparr>
                 (PDict ?kvs) = Inr res
         \<and> map fst res = [''ports'', ''services'', ''updates'', ''firewall'', ''antivirus'', ''ssl'',
                           ''security_score'']"
    by blast
  from t [THEN conjunct2, THEN conjunct2, THEN conjunct1] h(3) n(2)
  have r: "\<exists>res. ResourceAnalyzer_analyze default_resource_thresholds (PDict ?kvs) = Inr res
         \<and> map fst res = [''disk'', ''memory'', ''swap'', ''file_system'', ''processes'', ''health'']"
    by blast
  from t [THEN conjunct2, THEN conjunct2, THEN conjunct2, THEN conjunct1]
  have d: "PerformanceAnalyzer_analyze default_performance_thresholds (PDict ?kvs)
     = PerformanceAnalyzer_analyze default_performance_thresholds
         (PDict (?kvs @ [(''memory'', PDict []), (''disk'', PDict []), (''network'', PDict [])]))"
    unfolding w .
  from h n p s r d show ?thesis
    by (simp only: append.simps simp_thms)
qed

text \<open>
  C8 as stated fails: a process record whose \<^verbatim>\<open>cpu_percent\<close> is present with the value
  \<^verbatim>\<open>None\<close> (what the collector stores when the process denies access) makes the
  performance analyzer raise \<^verbatim>\<open>TypeError\<close> at \<^verbatim>\<open>None > 50\<close>.
\<close>

theorem none_percent_counterexample:
  "PerformanceAnalyzer_analyze default_performance_thresholds
     (PDict [(''processes'',
              PList [PDict [(''pid'', PInt 1), (''name'', PStr ''init''), (''status'', PStr ''running''),
                            (''cpu_percent'', PNone), (''memory_percent'', PNone)]])])
   = Inl TypeError"
  by (simp add: analyzer_defs evaluator_defs default_performance_thresholds_def)

section \<open>The shape of an analysis result\<close>

text \<open>
  Whenever an analyzer returns, its result is the mapping of its categories followed by the
  aggregate of exactly those category results. The performance and the resource analyzer
  store the aggregate under \<^verbatim>\<open>'health'\<close>, the security analyzer under
  \<^verbatim>\<open>'security_score'\<close>.
\<close>

lemma performance_result_shape:
  assumes "PerformanceAnalyzer_analyze th m = Inr res"
  shows "\<exists>cats. map fst cats = [''cpu'', ''memory'', ''disk'', ''network'', ''processes'']
     \<and> res = store_health cats ''health'' (PerformanceAnalyzer_calculate_health cats)"
proof -
  from assms obtain r1 r2 r3 r4 r5 where
    "res = store_health
             [(''cpu'', r1), (''memory'', r2), (''disk'', r3), (''network'', r4),
              (''processes'', r5)]
             ''health''
             (PerformanceAnalyzer_calculate_health
                [(''cpu'', r1), (''memory'', r2), (''disk'', r3), (''network'', r4),
                 (''processes'', r5)])"
    unfolding PerformanceAnalyzer_analyze_def bindE_Inr Let_def by auto
  then show ?thesis
    by (intro exI [where x =
          "[(''cpu'', r1), (''memory'', r2), (''disk'', r3), (''network'', r4),
            (''processes'', r5)]"]) simp
qed

lemma resource_result_shape:
  assumes "ResourceAnalyzer_analyze th m = Inr res"
  shows "\<exists>cats. map fst cats = [''disk'', ''memory'', ''swap'', ''file_system'', ''processes'']
     \<and> res = store_health cats ''health'' (ResourceAnalyzer_calculate_health cats)"
proof -
  from assms obtain r1 r2 r3 r4 r5 where
    "res = store_health
             [(''disk'', r1), (''memory'', r2), (''swap'', r3),
              (''file_system'', r4), (''processes'', r5)]
             ''health''
             (ResourceAnalyzer_calculate_health
                [(''disk'', r1), (''memory'', r2), (''swap'', r3),
                 (''file_system'', r4), (''processes'', r5)])"
    unfolding ResourceAnalyzer_analyze_def bindE_Inr Let_def by auto
  then show ?thesis
    by (intro exI [where x =
          "[(''disk'', r1), (''memory'', r2), (''swap'', r3),
            (''file_system'', r4), (''processes'', r5)]"]) simp
qed

lemma security_result_shape:
  assumes "SecurityAnalyzer_analyze self m = Inr res"
  shows "\<exists>cats. map fst cats = [''ports'', ''services'', ''updates'', ''firewall'', ''antivirus'', ''ssl'']
     \<and> res = store_health cats ''security_score'' (SecurityAnalyzer_calculate_security_score cats)"
proof -
  from assms obtain r1 r2 r3 r4 r5 r6 where
    "res = store_health
             [(''ports'', r1), (''services'', r2), (''updates'', r3),
              (''firewall'', r4), (''antivirus'', r5), (''ssl'', r6)]
             ''security_score''
             (SecurityAnalyzer_calculate_security_score
                [(''ports'', r1), (''services'', r2), (''updates'', r3),
                 (''firewall'', r4), (''antivirus'', r5), (''ssl'', r6)])"
    unfolding SecurityAnalyzer_analyze_def bindE_Inr Let_def by auto
  then show ?thesis
    by (intro exI [where x =
          "[(''ports'', r1), (''services'', r2), (''updates'', r3),
            (''firewall'', r4), (''antivirus'', r5), (''ssl'', r6)]"]) simp
qed

lemma security_result_no_health:
  assumes "SecurityAnalyzer_analyze self m = Inr res"
  shows "map_of res ''health'' = None"
  using security_result_shape [OF assms]
  by (auto simp: store_health_def map_of_eq_None_iff image_iff)

text \<open>
  C4 holds for the performance and the resource analyzer (\<open>performance_result_shape\<close>,
  \<open>resource_result_shape\<close>) and fails for the security analyzer: on the empty snapshot its
  result has the six categories and the key \<^verbatim>\<open>'security_score'\<close>, and no key
  \<^verbatim>\<open>'health'\<close>, which is the key the report generator reads the security score from.
\<close>

theorem security_result_has_no_health_key:
  "\<exists>res. SecurityAnalyzer_analyze \<lparr>config_data = PDict [], checks = default_checks\<rparr> (PDict [])
           = Inr res
     \<and> map fst res = [''ports'', ''services'', ''updates'', ''firewall'', ''antivirus'', ''ssl'',
                       ''security_score'']
     \<and> map_of res ''health'' = None
     \<and> map_of res ''security_score''
         = Some (Health \<lparr>status = Critical,
                   issues = [[Lit ''Firewall is not enabled''], [Lit ''Antivirus is not enabled'']],
                   score = 50\<rparr>)"
  by (simp add: analyzer_defs evaluator_defs)

end
